theory Spec2Isabelle
  imports Main
begin

section \<open>The plugin-composition subsystem of the extension manager\<close>

text \<open>
  A shallow embedding of \<^verbatim>\<open>@remirror/core/src/builtins/plugins-extension.ts\<close>: the class
  \<^verbatim>\<open>PluginsExtension\<close> with its private fields, the store it shares with the manager, and
  its methods \<^verbatim>\<open>onCreate\<close>, \<^verbatim>\<open>createEachExtensionPlugins\<close>, \<^verbatim>\<open>getStateByName\<close>,
  \<^verbatim>\<open>updateExtensionStore\<close>, \<^verbatim>\<open>addPlugins\<close>, \<^verbatim>\<open>replacePlugin\<close> and
  \<^verbatim>\<open>reconfigureStatePlugins\<close>. Mutation is explicit state passing: a method takes the
  instance (\<open>this\<close>) and returns the updated one; a thrown error is the \<open>Inl\<close> of a sum.
\<close>

subsection \<open>Objects and their identity\<close>

text \<open>
  JavaScript compares objects by reference (\<^verbatim>\<open>===\<close>). An object created by \<^verbatim>\<open>new\<close> carries
  its address, so that HOL equality on plugin keys and plugins is reference identity:
  two objects built by two \<^verbatim>\<open>new\<close> expressions differ even when their contents agree.
\<close>

type_synonym address = nat

text \<open>
  Modelled from the spec: \<^verbatim>\<open>PluginKey\<close> of the host editor, an identity token made from a
  name by \<^verbatim>\<open>new PluginKey(name)\<close>.
\<close>

datatype PluginKey = PluginKey (key_address: address) (key_name: string)

text \<open>
  Modelled from the spec: \<^verbatim>\<open>PluginSpec\<close> and \<^verbatim>\<open>Plugin\<close> of the host editor. A spec is
  the key and the remaining fields (state reducer,
  props, view hooks), which this subsystem never inspects; a plugin is the object that
  \<^verbatim>\<open>new Plugin(spec)\<close> builds around a spec. \<^verbatim>\<open>CreatePluginReturn\<close> is the same bundle as
  a spec; its type leaves the key out, at run time a key may still be there.
\<close>

record 'a PluginSpec =
  key :: "PluginKey option"
  rest :: 'a

datatype 'a ProsemirrorPlugin =
  Plugin (plugin_address: address) (spec: "'a PluginSpec")

text \<open>
  The closure \<^verbatim>\<open>() => getPluginState(key, this.store.getStoreKey('view').state)\<close>,
  defunctionalised: it captures the key; the store is read when it is called.
\<close>

datatype Getter = Getter PluginKey

text \<open>
  A key of the \<^verbatim>\<open>stateGetters\<close> map, \<^verbatim>\<open>string | AnyExtensionConstructor\<close>: a string and a
  class are never equal, and a class is an object, identified by its address.
\<close>

datatype Identifier = ByName string | ByConstructor address

subsection \<open>Extensions\<close>

text \<open>\<^verbatim>\<open>ExcludeOptions\<close> (\<^verbatim>\<open>plugins?: boolean\<close>), reached through \<^verbatim>\<open>exclude?\<close>.\<close>

record ExcludeOptions =
  exclude_plugins :: "bool option"

record ExtensionOptions =
  options_exclude :: "ExcludeOptions option"

record ManagerSettings =
  settings_exclude :: "ExcludeOptions option"

text \<open>
  An extension instance. The optional creator methods are \<open>None\<close> when the extension
  does not define them, and otherwise hold what the call returns. \<open>pluginKey\<close>,
  \<open>getPluginState\<close> and \<open>plugin\<close> are the fields of \<^verbatim>\<open>BaseExtension\<close> declared in this
  file; \<open>None\<close> is \<^verbatim>\<open>undefined\<close>.
\<close>

record 'a Extension =
  name :: string
  constructor :: address
  options :: ExtensionOptions
  createPlugin :: "'a PluginSpec option"
  createExternalPlugins :: "'a ProsemirrorPlugin list option"
  pluginKey :: "PluginKey option"
  getPluginState :: "Getter option"
  plugin :: "'a ProsemirrorPlugin option"

subsection \<open>Errors\<close>

text \<open>
  Modelled from the spec: \<^verbatim>\<open>ErrorConstant\<close> of \<^verbatim>\<open>@remirror/core-constants\<close> is not part of
  the sources; this is the one member the file names.
\<close>

datatype ErrorConstant = MANAGER_PHASE_ERROR

text \<open>
  What a call can throw: the error of a failed invariant, with the code (if one was
  given) and the message, or the \<^verbatim>\<open>TypeError\<close> of reading a property of \<^verbatim>\<open>undefined\<close>.
\<close>

datatype Error =
  RemirrorError (code: "ErrorConstant option") (message: string)
  | TypeError

text \<open>
  Modelled from the spec: \<^verbatim>\<open>invariant(condition, { code, message })\<close> of
  \<^verbatim>\<open>@remirror/core-helpers\<close> throws a descriptive error when the condition is falsy.
\<close>

definition invariant :: "bool \<Rightarrow> ErrorConstant option \<Rightarrow> string \<Rightarrow> Error + unit" where
  "invariant condition c m = (if condition then Inr () else Inl (RemirrorError c m))"

subsection \<open>The host editor's state and view\<close>

text \<open>
  Modelled from the spec: the host editor library is not part of the sources. Its state
  object holds the plugin set, a plugin-state lookup by key and the document; its view
  holds the current state.
\<close>

record ('a, 'v, 'd) EditorState =
  state_plugins :: "'a ProsemirrorPlugin list"
  plugin_fields :: "PluginKey \<Rightarrow> 'v option"
  doc :: 'd

record ('a, 'v, 'd) EditorView =
  state :: "('a, 'v, 'd) EditorState"

text \<open>
  Modelled from the spec: \<^verbatim>\<open>state.reconfigure({ plugins })\<close> derives a new state from the
  current one by substituting its plugin set.
\<close>

definition reconfigure ::
  "('a, 'v, 'd) EditorState \<Rightarrow> 'a ProsemirrorPlugin list \<Rightarrow> ('a, 'v, 'd) EditorState" where
  "reconfigure st ps = st\<lparr>state_plugins := ps\<rparr>"

text \<open>
  Modelled from the spec: \<^verbatim>\<open>view.updateState(newState)\<close> installs the new state in the
  view it is called on. It is a method of the host's view class and reads its receiver
  (\<^verbatim>\<open>this\<close>): \<open>Some v\<close> is a call on the view \<open>v\<close>, and \<open>None\<close> is a call of the function
  taken off the view, with no receiver, which throws a \<^verbatim>\<open>TypeError\<close> and installs nothing.
\<close>

definition updateState ::
  "('a, 'v, 'd) EditorView option \<Rightarrow> ('a, 'v, 'd) EditorState
     \<Rightarrow> Error + ('a, 'v, 'd) EditorView" where
  "updateState receiver newState =
     (case receiver of
        None \<Rightarrow> Inl TypeError
      | Some v \<Rightarrow> Inr (v\<lparr>state := newState\<rparr>))"

text \<open>
  Modelled from the spec: \<^verbatim>\<open>getPluginState(key, state)\<close> of \<^verbatim>\<open>@remirror/core-utils\<close> is the
  plugin-state lookup by key; \<open>None\<close> is \<^verbatim>\<open>undefined\<close>.
\<close>

definition utils_getPluginState :: "PluginKey \<Rightarrow> ('a, 'v, 'd) EditorState \<Rightarrow> 'v option" where
  "utils_getPluginState k st = plugin_fields st k"

subsection \<open>The store and the instance\<close>

text \<open>The bound methods that the instance publishes, by name.\<close>

datatype Callable = AddPlugins | ReplacePlugin | ReconfigureStatePlugins | GetStateByName

text \<open>
  \<^verbatim>\<open>this.store\<close>: the phase counter, the manager settings and the view (absent until the
  manager attaches it), the manager-store keys this file sets with \<^verbatim>\<open>setStoreKey\<close>
  (\<open>None\<close> while unset), and the extension store filled by \<^verbatim>\<open>setExtensionStore\<close>.
\<close>

record ('a, 'v, 'd) Store =
  phase :: nat
  managerSettings :: ManagerSettings
  view :: "('a, 'v, 'd) EditorView option"
  store_plugins :: "'a ProsemirrorPlugin list option"
  store_pluginKeys :: "(string \<Rightarrow> PluginKey option) option"
  store_getPluginState :: "Callable option"
  extensionStore :: "string \<Rightarrow> Callable option"

text \<open>
  The instance: its four private fields, its store, and the next free address of the
  object heap (what the next \<^verbatim>\<open>new\<close> returns).
\<close>

record ('a, 'v, 'd) PluginsExtension =
  plugins :: "'a ProsemirrorPlugin list"
  extensionPlugins :: "'a ProsemirrorPlugin list"
  pluginKeys :: "string \<Rightarrow> PluginKey option"
  stateGetters :: "Identifier \<Rightarrow> Getter option"
  store :: "('a, 'v, 'd) Store"
  fresh :: address

text \<open>The field initialisers of the class, for a given store and heap.\<close>

definition new_PluginsExtension ::
  "('a, 'v, 'd) Store \<Rightarrow> address \<Rightarrow> ('a, 'v, 'd) PluginsExtension" where
  "new_PluginsExtension st a =
     \<lparr>plugins = [], extensionPlugins = [], pluginKeys = Map.empty,
      stateGetters = Map.empty, store = st, fresh = a\<rparr>"

text \<open>
  \<^verbatim>\<open>new PluginKey(name)\<close> and \<^verbatim>\<open>new Plugin(pluginSpec)\<close>: the new object takes the next
  free address.
\<close>

definition new_PluginKey ::
  "string \<Rightarrow> ('a, 'v, 'd) PluginsExtension \<Rightarrow> PluginKey \<times> ('a, 'v, 'd) PluginsExtension" where
  "new_PluginKey n this = (PluginKey (fresh this) n, this\<lparr>fresh := Suc (fresh this)\<rparr>)"

definition new_Plugin ::
  "'a PluginSpec \<Rightarrow> ('a, 'v, 'd) PluginsExtension
     \<Rightarrow> 'a ProsemirrorPlugin \<times> ('a, 'v, 'd) PluginsExtension" where
  "new_Plugin pluginSpec this = (Plugin (fresh this) pluginSpec, this\<lparr>fresh := Suc (fresh this)\<rparr>)"

subsection \<open>The published plugin list\<close>

text \<open>\<^verbatim>\<open>addPlugins(...plugins)\<close>, lines 139-143.\<close>

definition addPlugins ::
  "'a ProsemirrorPlugin list \<Rightarrow> ('a, 'v, 'd) PluginsExtension \<Rightarrow> ('a, 'v, 'd) PluginsExtension" where
  "addPlugins ps this =
     (let this1 = this\<lparr>plugins := plugins this @ ps\<rparr>
      in this1\<lparr>store := (store this1)\<lparr>store_plugins := Some (plugins this1)\<rparr>\<rparr>)"

text \<open>
  \<^verbatim>\<open>replacePlugin(original, replacement)\<close>, lines 150-157. The callback of \<^verbatim>\<open>map\<close> is
  \<^verbatim>\<open>plugin === original ? replacement : original\<close>.
\<close>

definition replacePlugin ::
  "'a ProsemirrorPlugin \<Rightarrow> 'a ProsemirrorPlugin \<Rightarrow> ('a, 'v, 'd) PluginsExtension
     \<Rightarrow> ('a, 'v, 'd) PluginsExtension" where
  "replacePlugin original replacement this =
     (let this1 = this\<lparr>plugins :=
            map (\<lambda>plugin. if plugin = original then replacement else original) (plugins this)\<rparr>
      in this1\<lparr>store := (store this1)\<lparr>store_plugins := Some (plugins this1)\<rparr>\<rparr>)"

text \<open>
  \<^verbatim>\<open>reconfigureStatePlugins()\<close>, lines 162-173. The constant \<^verbatim>\<open>ManagerPhase.EditorView\<close> is
  not part of the sources and is the parameter \<open>editorView\<close>. Destructuring
  \<^verbatim>\<open>this.store.view\<close> when there is no view is a \<^verbatim>\<open>TypeError\<close>. The statement
  \<^verbatim>\<open>const { state, updateState } = this.store.view\<close> takes the method off the view, and
  \<^verbatim>\<open>updateState(newState)\<close> calls it with no receiver.
\<close>

definition reconfigureStatePlugins ::
  "nat \<Rightarrow> ('a, 'v, 'd) PluginsExtension \<Rightarrow> (Error + unit) \<times> ('a, 'v, 'd) PluginsExtension" where
  "reconfigureStatePlugins editorView this =
     (case invariant (editorView \<le> phase (store this)) (Some MANAGER_PHASE_ERROR)
             ''`reconfigureStatePlugins` should only be called after the view has been added to the manager.'' of
        Inl e \<Rightarrow> (Inl e, this)
      | Inr _ \<Rightarrow>
          (case view (store this) of
             None \<Rightarrow> (Inl TypeError, this)
           | Some v \<Rightarrow>
               (let newState = reconfigure (state v) (plugins this)
                in (case updateState None newState of
                      Inl e \<Rightarrow> (Inl e, this)
                    | Inr v' \<Rightarrow> (Inr (), this\<lparr>store := (store this)\<lparr>view := Some v'\<rparr>\<rparr>)))))"

subsection \<open>The plugin collector\<close>

text \<open>
  \<^verbatim>\<open>exclude?.plugins\<close> as a condition: truthy only when the exclusion options exist and
  their \<^verbatim>\<open>plugins\<close> flag is \<^verbatim>\<open>true\<close>.
\<close>

definition excludesPlugins :: "ExcludeOptions option \<Rightarrow> bool" where
  "excludesPlugins ex =
     (case ex of
        None \<Rightarrow> False
      | Some e \<Rightarrow> (case exclude_plugins e of None \<Rightarrow> False | Some b \<Rightarrow> b))"

text \<open>
  The condition of the early return of \<^verbatim>\<open>createEachExtensionPlugins\<close>, lines 70-78:
  \<^verbatim>\<open>isNotPluginCreator || managerSettings.exclude?.plugins || extension.options.exclude?.plugins\<close>.
\<close>

definition skipsPlugins :: "('a, 'v, 'd) PluginsExtension \<Rightarrow> 'a Extension \<Rightarrow> bool" where
  "skipsPlugins this extension =
     (let isNotPluginCreator =
            (createPlugin extension = None \<and> createExternalPlugins extension = None)
      in isNotPluginCreator
         \<or> excludesPlugins (settings_exclude (managerSettings (store this)))
         \<or> excludesPlugins (options_exclude (options extension)))"

text \<open>
  The block \<^verbatim>\<open>if (extension.createPlugin) { ... }\<close>, lines 85-102, for a method that
  returned \<open>created\<close>: the key is recorded under the extension's name, the getter is
  attached to the extension and registered under name and constructor, and the plugin
  made from \<^verbatim>\<open>{ ...extension.createPlugin(), key }\<close> is pushed.
\<close>

definition createCustomPlugin ::
  "PluginKey \<Rightarrow> 'a PluginSpec \<Rightarrow> ('a, 'v, 'd) PluginsExtension \<Rightarrow> 'a Extension
     \<Rightarrow> 'a Extension \<times> ('a, 'v, 'd) PluginsExtension" where
  "createCustomPlugin k created this extension =
     (let this1 = this\<lparr>pluginKeys := (pluginKeys this)(name extension \<mapsto> k)\<rparr>;
          getter = Getter k;
          extension1 = extension\<lparr>pluginKey := Some k\<rparr>;
          extension2 = extension1\<lparr>getPluginState := Some getter\<rparr>;
          this2 = this1\<lparr>stateGetters := (stateGetters this1)(ByName (name extension2) \<mapsto> getter)\<rparr>;
          this3 = this2\<lparr>stateGetters :=
                    (stateGetters this2)(ByConstructor (constructor extension2) \<mapsto> getter)\<rparr>;
          pluginSpec = created\<lparr>key := Some k\<rparr>;
          (p, this4) = new_Plugin pluginSpec this3
      in (extension2, this4\<lparr>extensionPlugins := extensionPlugins this4 @ [p]\<rparr>))"

text \<open>\<^verbatim>\<open>createEachExtensionPlugins(extension)\<close>, lines 69-108.\<close>

definition createEachExtensionPlugins ::
  "('a, 'v, 'd) PluginsExtension \<Rightarrow> 'a Extension
     \<Rightarrow> 'a Extension \<times> ('a, 'v, 'd) PluginsExtension" where
  "createEachExtensionPlugins this extension =
     (if skipsPlugins this extension then (extension, this)
      else
        (let (k, this1) = new_PluginKey (name extension) this;
             (extension1, this2) =
               (case createPlugin extension of
                  None \<Rightarrow> (extension, this1)
                | Some created \<Rightarrow> createCustomPlugin k created this1 extension)
         in (case createExternalPlugins extension1 of
               None \<Rightarrow> (extension1, this2)
             | Some external \<Rightarrow>
                 (extension1, this2\<lparr>extensionPlugins := extensionPlugins this2 @ external\<rparr>))))"

text \<open>
  The loop \<^verbatim>\<open>for (const extension of extensions)\<close> of \<^verbatim>\<open>onCreate\<close>, lines 59-61; it
  returns the extensions as the loop leaves them.
\<close>

fun createAllExtensionPlugins ::
  "('a, 'v, 'd) PluginsExtension \<Rightarrow> 'a Extension list
     \<Rightarrow> 'a Extension list \<times> ('a, 'v, 'd) PluginsExtension" where
  "createAllExtensionPlugins this [] = ([], this)"
| "createAllExtensionPlugins this (extension # extensions) =
     (let (extension1, this1) = createEachExtensionPlugins this extension;
          (extensions1, this2) = createAllExtensionPlugins this1 extensions
      in (extension1 # extensions1, this2))"

text \<open>\<^verbatim>\<open>setExtensionStore(key, value)\<close> of the store, for the callables set in this file.\<close>

definition setExtensionStore ::
  "string \<Rightarrow> Callable \<Rightarrow> ('a, 'v, 'd) PluginsExtension \<Rightarrow> ('a, 'v, 'd) PluginsExtension" where
  "setExtensionStore k c this =
     this\<lparr>store := (store this)\<lparr>extensionStore := (extensionStore (store this))(k \<mapsto> c)\<rparr>\<rparr>"

text \<open>\<^verbatim>\<open>updateExtensionStore()\<close>, lines 125-134.\<close>

definition updateExtensionStore ::
  "('a, 'v, 'd) PluginsExtension \<Rightarrow> ('a, 'v, 'd) PluginsExtension" where
  "updateExtensionStore this =
     (let this1 = this\<lparr>store := (store this)\<lparr>store_plugins := Some []\<rparr>\<rparr>;
          this2 = setExtensionStore ''addPlugins'' AddPlugins this1;
          this3 = setExtensionStore ''replacePlugin'' ReplacePlugin this2
      in setExtensionStore ''reconfigureStatePlugins'' ReconfigureStatePlugins this3)"

text \<open>
  \<^verbatim>\<open>onCreate(extensions)\<close>, lines 55-67. \<^verbatim>\<open>this.store.addPlugins\<close> is the method that
  \<^verbatim>\<open>updateExtensionStore\<close> has just installed in the extension store.
\<close>

definition onCreate ::
  "('a, 'v, 'd) PluginsExtension \<Rightarrow> 'a Extension list
     \<Rightarrow> 'a Extension list \<times> ('a, 'v, 'd) PluginsExtension" where
  "onCreate this extensions =
     (let this1 = updateExtensionStore this;
          (extensions1, this2) = createAllExtensionPlugins this1 extensions;
          this3 = this2\<lparr>store := (store this2)\<lparr>store_pluginKeys := Some (pluginKeys this2)\<rparr>\<rparr>;
          this4 = this3\<lparr>store := (store this3)\<lparr>store_getPluginState := Some GetStateByName\<rparr>\<rparr>;
          this5 = setExtensionStore ''getPluginState'' GetStateByName this4
      in (extensions1, addPlugins (extensionPlugins this5) this5))"

subsection \<open>Plugin state lookup\<close>

text \<open>
  Calling a stored getter: it reads \<^verbatim>\<open>this.store.getStoreKey('view').state\<close>, a
  \<^verbatim>\<open>TypeError\<close> while there is no view.
\<close>

definition callGetter :: "('a, 'v, 'd) PluginsExtension \<Rightarrow> Getter \<Rightarrow> Error + 'v option" where
  "callGetter this g =
     (case g of Getter k \<Rightarrow>
        (case view (store this) of
           None \<Rightarrow> Inl TypeError
         | Some v \<Rightarrow> Inr (utils_getPluginState k (state v))))"

text \<open>
  \<^verbatim>\<open>getStateByName(identifier)\<close>, lines 111-116. Past the invariant the getter exists;
  calling \<^verbatim>\<open>undefined\<close> would be a \<^verbatim>\<open>TypeError\<close>.
\<close>

definition getStateByName ::
  "('a, 'v, 'd) PluginsExtension \<Rightarrow> Identifier \<Rightarrow> Error + 'v option" where
  "getStateByName this identifier =
     (let stateGetter = stateGetters this identifier
      in (case invariant (stateGetter \<noteq> None) None
                 ''No plugin exists for the requested extension name.'' of
            Inl e \<Rightarrow> Inl e
          | Inr _ \<Rightarrow>
              (case stateGetter of
                 None \<Rightarrow> Inl TypeError
               | Some g \<Rightarrow> callGetter this g)))"

subsection \<open>The ordering guarantee, in the words of the specification\<close>

text \<open>
  What one extension contributes: the single plugin made from its \<^verbatim>\<open>createPlugin\<close>
  result, merged with the key allocated for it (the allocated key replaces any key of
  the result), and then its external plugins, unfiltered. The key is the object at the
  first free address \<open>a\<close>, the plugin the one after it.
\<close>

definition ownPlugin :: "address \<Rightarrow> 'a Extension \<Rightarrow> 'a ProsemirrorPlugin list" where
  "ownPlugin a e =
     (case createPlugin e of
        None \<Rightarrow> []
      | Some created \<Rightarrow> [Plugin (Suc a) (created\<lparr>key := Some (PluginKey a (name e))\<rparr>)])"

definition externalPlugins :: "'a Extension \<Rightarrow> 'a ProsemirrorPlugin list" where
  "externalPlugins e = (case createExternalPlugins e of None \<Rightarrow> [] | Some external \<Rightarrow> external)"

definition allocations :: "'a Extension \<Rightarrow> nat" where
  "allocations e = (case createPlugin e of None \<Rightarrow> 1 | Some _ \<Rightarrow> 2)"

text \<open>
  The extension-plugin list that the specification describes for a sequence of
  extensions: the contributions of the extensions that are not skipped, in input order,
  within one extension the created plugin before the external ones.
\<close>

fun collected ::
  "('a, 'v, 'd) PluginsExtension \<Rightarrow> address \<Rightarrow> 'a Extension list \<Rightarrow> 'a ProsemirrorPlugin list" where
  "collected this a [] = []"
| "collected this a (e # es) =
     (if skipsPlugins this e then collected this a es
      else ownPlugin a e @ externalPlugins e @ collected this (a + allocations e) es)"

subsection \<open>Objects as the manager hands them over\<close>

text \<open>A store in which this subsystem has published nothing yet.\<close>

definition newStore ::
  "ManagerSettings \<Rightarrow> nat \<Rightarrow> ('a, 'v, 'd) EditorView option \<Rightarrow> ('a, 'v, 'd) Store" where
  "newStore ms ph v =
     \<lparr>phase = ph, managerSettings = ms, view = v, store_plugins = None,
      store_pluginKeys = None, store_getPluginState = None, extensionStore = Map.empty\<rparr>"

text \<open>An extension to which the manager has attached nothing yet.\<close>

definition newExtension ::
  "string \<Rightarrow> address \<Rightarrow> ExcludeOptions option \<Rightarrow> 'a PluginSpec option
     \<Rightarrow> 'a ProsemirrorPlugin list option \<Rightarrow> 'a Extension" where
  "newExtension n c ex cp cep =
     \<lparr>name = n, constructor = c, options = \<lparr>options_exclude = ex\<rparr>, createPlugin = cp,
      createExternalPlugins = cep, pluginKey = None, getPluginState = None, plugin = None\<rparr>"

section \<open>Basic facts about the collector\<close>

subsection \<open>One extension, and the loop over all of them\<close>

lemma step_skip: "skipsPlugins this e \<Longrightarrow> createEachExtensionPlugins this e = (e, this)"
  by (simp add: createEachExtensionPlugins_def)

lemma step_extensionPlugins:
  "\<not> skipsPlugins this e \<Longrightarrow>
   extensionPlugins (snd (createEachExtensionPlugins this e))
     = extensionPlugins this @ ownPlugin (fresh this) e @ externalPlugins e"
  by (simp add: createEachExtensionPlugins_def createCustomPlugin_def new_PluginKey_def
      new_Plugin_def ownPlugin_def externalPlugins_def Let_def split: option.splits prod.splits)

lemma step_fresh:
  "\<not> skipsPlugins this e \<Longrightarrow>
   fresh (snd (createEachExtensionPlugins this e)) = fresh this + allocations e"
  by (simp add: createEachExtensionPlugins_def createCustomPlugin_def new_PluginKey_def
      new_Plugin_def allocations_def Let_def split: option.splits prod.splits)

lemma step_store: "store (snd (createEachExtensionPlugins this e)) = store this"
  by (simp add: createEachExtensionPlugins_def createCustomPlugin_def new_PluginKey_def
      new_Plugin_def Let_def split: option.splits prod.splits)

lemma step_plugins: "plugins (snd (createEachExtensionPlugins this e)) = plugins this"
  by (simp add: createEachExtensionPlugins_def createCustomPlugin_def new_PluginKey_def
      new_Plugin_def Let_def split: option.splits prod.splits)

lemma step_stateGetters:
  "stateGetters (snd (createEachExtensionPlugins this e)) =
     (if skipsPlugins this e \<or> createPlugin e = None then stateGetters this
      else (stateGetters this)
             (ByName (name e) \<mapsto> Getter (PluginKey (fresh this) (name e)),
              ByConstructor (constructor e) \<mapsto> Getter (PluginKey (fresh this) (name e))))"
  by (simp add: createEachExtensionPlugins_def createCustomPlugin_def new_PluginKey_def
      new_Plugin_def Let_def split: option.splits prod.splits)

lemma step_pluginKeys:
  "pluginKeys (snd (createEachExtensionPlugins this e)) =
     (if skipsPlugins this e \<or> createPlugin e = None then pluginKeys this
      else (pluginKeys this)(name e \<mapsto> PluginKey (fresh this) (name e)))"
  by (simp add: createEachExtensionPlugins_def createCustomPlugin_def new_PluginKey_def
      new_Plugin_def Let_def split: option.splits prod.splits)

lemma step_extension:
  "fst (createEachExtensionPlugins this e) =
     (if skipsPlugins this e \<or> createPlugin e = None then e
      else e\<lparr>pluginKey := Some (PluginKey (fresh this) (name e)),
             getPluginState := Some (Getter (PluginKey (fresh this) (name e)))\<rparr>)"
  by (simp add: createEachExtensionPlugins_def createCustomPlugin_def new_PluginKey_def
      new_Plugin_def Let_def split: option.splits prod.splits)

lemma skipsPlugins_store:
  "store this' = store this \<Longrightarrow> skipsPlugins this' e = skipsPlugins this e"
  by (simp add: skipsPlugins_def)

lemma collected_store:
  "store this' = store this \<Longrightarrow> collected this' a es = collected this a es"
  by (induction es arbitrary: a) (simp_all add: skipsPlugins_def)

lemma all_store: "store (snd (createAllExtensionPlugins this es)) = store this"
proof (induction es arbitrary: this)
  case Nil
  show ?case by simp
next
  case (Cons e es)
  have "store (snd (createAllExtensionPlugins (snd (createEachExtensionPlugins this e)) es))
          = store this"
    using Cons.IH [of "snd (createEachExtensionPlugins this e)"] by (simp add: step_store)
  then show ?case by (simp add: split_beta Let_def)
qed

lemma all_plugins: "plugins (snd (createAllExtensionPlugins this es)) = plugins this"
proof (induction es arbitrary: this)
  case Nil
  show ?case by simp
next
  case (Cons e es)
  have "plugins (snd (createAllExtensionPlugins (snd (createEachExtensionPlugins this e)) es))
          = plugins this"
    using Cons.IH [of "snd (createEachExtensionPlugins this e)"] by (simp add: step_plugins)
  then show ?case by (simp add: split_beta Let_def)
qed

lemma all_extensionPlugins:
  "extensionPlugins (snd (createAllExtensionPlugins this es))
     = extensionPlugins this @ collected this (fresh this) es"
proof (induction es arbitrary: this)
  case Nil
  show ?case by simp
next
  case (Cons e es)
  let ?this1 = "snd (createEachExtensionPlugins this e)"
  have unfold: "snd (createAllExtensionPlugins this (e # es))
                  = snd (createAllExtensionPlugins ?this1 es)"
    by (simp add: split_beta Let_def)
  have st: "store ?this1 = store this" by (rule step_store)
  show ?case
  proof (cases "skipsPlugins this e")
    case True
    then have "?this1 = this" by (simp add: step_skip)
    with True Cons.IH [of this] unfold show ?thesis by simp
  next
    case False
    have "extensionPlugins (snd (createAllExtensionPlugins ?this1 es))
            = extensionPlugins ?this1 @ collected ?this1 (fresh ?this1) es"
      by (rule Cons.IH)
    also have "collected ?this1 (fresh ?this1) es = collected this (fresh this + allocations e) es"
      using False by (simp add: collected_store [OF st] step_fresh)
    also have "extensionPlugins ?this1
                 = extensionPlugins this @ ownPlugin (fresh this) e @ externalPlugins e"
      using False by (rule step_extensionPlugins)
    finally show ?thesis using False unfold by simp
  qed
qed

lemma all_append:
  "snd (createAllExtensionPlugins this (xs @ ys))
     = snd (createAllExtensionPlugins (snd (createAllExtensionPlugins this xs)) ys)"
  by (induction xs arbitrary: this) (simp_all add: split_beta Let_def)

lemma onCreate_snd:
  "snd (onCreate this es) =
     (let this2 = snd (createAllExtensionPlugins (updateExtensionStore this) es);
          this3 = this2\<lparr>store := (store this2)\<lparr>store_pluginKeys := Some (pluginKeys this2)\<rparr>\<rparr>;
          this4 = this3\<lparr>store := (store this3)\<lparr>store_getPluginState := Some GetStateByName\<rparr>\<rparr>;
          this5 = setExtensionStore ''getPluginState'' GetStateByName this4
      in addPlugins (extensionPlugins this5) this5)"
  by (simp add: onCreate_def split_beta Let_def)

lemma onCreate_fst:
  "fst (onCreate this es) = fst (createAllExtensionPlugins (updateExtensionStore this) es)"
  by (simp add: onCreate_def split_beta Let_def)

lemma updateExtensionStore_fields:
  "plugins (updateExtensionStore this) = plugins this"
  "extensionPlugins (updateExtensionStore this) = extensionPlugins this"
  "pluginKeys (updateExtensionStore this) = pluginKeys this"
  "stateGetters (updateExtensionStore this) = stateGetters this"
  "fresh (updateExtensionStore this) = fresh this"
  "managerSettings (store (updateExtensionStore this)) = managerSettings (store this)"
  "view (store (updateExtensionStore this)) = view (store this)"
  "phase (store (updateExtensionStore this)) = phase (store this)"
  by (simp_all add: updateExtensionStore_def setExtensionStore_def Let_def)

lemma skipsPlugins_update:
  "skipsPlugins (updateExtensionStore this) e = skipsPlugins this e"
  by (simp add: skipsPlugins_def updateExtensionStore_fields)

lemma collected_settings:
  "managerSettings (store this') = managerSettings (store this)
     \<Longrightarrow> collected this' a es = collected this a es"
  by (induction es arbitrary: a) (simp_all add: skipsPlugins_def)

lemma onCreate_extensionPlugins:
  "extensionPlugins (snd (onCreate this es))
     = extensionPlugins this @ collected this (fresh this) es"
  by (simp add: onCreate_snd Let_def addPlugins_def setExtensionStore_def all_extensionPlugins
      updateExtensionStore_fields collected_settings [of "updateExtensionStore this" this])

lemma onCreate_stateGetters:
  "stateGetters (snd (onCreate this es))
     = stateGetters (snd (createAllExtensionPlugins (updateExtensionStore this) es))"
  by (simp add: onCreate_snd Let_def addPlugins_def setExtensionStore_def)

lemma onCreate_pluginKeys:
  "pluginKeys (snd (onCreate this es))
     = pluginKeys (snd (createAllExtensionPlugins (updateExtensionStore this) es))"
  by (simp add: onCreate_snd Let_def addPlugins_def setExtensionStore_def)

subsection \<open>The registry of state getters\<close>

lemma skipsPlugins_all:
  "skipsPlugins (snd (createAllExtensionPlugins this es)) e = skipsPlugins this e"
  by (simp add: skipsPlugins_def all_store)

lemma all_Cons:
  "snd (createAllExtensionPlugins this (e # es))
     = snd (createAllExtensionPlugins (snd (createEachExtensionPlugins this e)) es)"
  by (simp add: split_beta Let_def)

lemma getters_agree_step:
  assumes "stateGetters this (ByName n) = stateGetters this (ByConstructor c)"
    and "createPlugin e = None \<or> (name e = n) = (constructor e = c)"
  shows "stateGetters (snd (createEachExtensionPlugins this e)) (ByName n)
           = stateGetters (snd (createEachExtensionPlugins this e)) (ByConstructor c)"
  using assms by (auto simp add: step_stateGetters)

lemma getters_stay_step:
  "stateGetters this i \<noteq> None
     \<Longrightarrow> stateGetters (snd (createEachExtensionPlugins this e)) i \<noteq> None"
  by (simp add: step_stateGetters)

lemma getters_registered_step:
  assumes "\<not> skipsPlugins this e" and "createPlugin e \<noteq> None"
  shows "stateGetters (snd (createEachExtensionPlugins this e)) (ByName (name e))
           = Some (Getter (PluginKey (fresh this) (name e)))"
    and "stateGetters (snd (createEachExtensionPlugins this e)) (ByConstructor (constructor e))
           = Some (Getter (PluginKey (fresh this) (name e)))"
  using assms by (auto simp add: step_stateGetters)

lemma getters_agree_all:
  assumes "stateGetters this (ByName n) = stateGetters this (ByConstructor c)"
    and "\<forall>e \<in> set es. createPlugin e \<noteq> None \<longrightarrow> (name e = n) = (constructor e = c)"
  shows "stateGetters (snd (createAllExtensionPlugins this es)) (ByName n)
           = stateGetters (snd (createAllExtensionPlugins this es)) (ByConstructor c)"
  using assms
proof (induction es arbitrary: this)
  case Nil
  then show ?case by simp
next
  case (Cons e es)
  have "createPlugin e = None \<or> (name e = n) = (constructor e = c)"
    using Cons.prems(2) by auto
  then have "stateGetters (snd (createEachExtensionPlugins this e)) (ByName n)
           = stateGetters (snd (createEachExtensionPlugins this e)) (ByConstructor c)"
    using Cons.prems(1) by (intro getters_agree_step)
  moreover have "\<forall>e \<in> set es. createPlugin e \<noteq> None \<longrightarrow> (name e = n) = (constructor e = c)"
    using Cons.prems(2) by simp
  ultimately show ?case
    unfolding all_Cons by (rule Cons.IH)
qed

lemma getters_stay_all:
  "stateGetters this i \<noteq> None
     \<Longrightarrow> stateGetters (snd (createAllExtensionPlugins this es)) i \<noteq> None"
proof (induction es arbitrary: this)
  case Nil
  then show ?case by simp
next
  case (Cons e es)
  show ?case
    unfolding all_Cons by (rule Cons.IH, rule getters_stay_step, rule Cons.prems)
qed

lemma getStateByName_registered:
  "stateGetters this i = Some g \<Longrightarrow> getStateByName this i = callGetter this g"
  by (simp add: getStateByName_def invariant_def Let_def)

lemma skipsPlugins_step:
  "skipsPlugins (snd (createEachExtensionPlugins this e)) e' = skipsPlugins this e'"
  by (simp add: skipsPlugins_def step_store)

subsection \<open>What the loop leaves as it was\<close>

lemma getters_absent_all:
  assumes "stateGetters this i = None"
    and "\<forall>e \<in> set es. createPlugin e \<noteq> None
           \<longrightarrow> i \<noteq> ByName (name e) \<and> i \<noteq> ByConstructor (constructor e)"
  shows "stateGetters (snd (createAllExtensionPlugins this es)) i = None"
  using assms
proof (induction es arbitrary: this)
  case Nil
  then show ?case by simp
next
  case (Cons e es)
  have "stateGetters (snd (createEachExtensionPlugins this e)) i = None"
    using Cons.prems by (auto simp add: step_stateGetters)
  moreover have "\<forall>e \<in> set es. createPlugin e \<noteq> None
           \<longrightarrow> i \<noteq> ByName (name e) \<and> i \<noteq> ByConstructor (constructor e)"
    using Cons.prems(2) by simp
  ultimately show ?case
    unfolding all_Cons by (rule Cons.IH)
qed

lemma keys_absent_all:
  assumes "pluginKeys this n = None"
    and "\<forall>e \<in> set es. createPlugin e \<noteq> None \<longrightarrow> name e \<noteq> n"
  shows "pluginKeys (snd (createAllExtensionPlugins this es)) n = None"
  using assms
proof (induction es arbitrary: this)
  case Nil
  then show ?case by simp
next
  case (Cons e es)
  have "pluginKeys (snd (createEachExtensionPlugins this e)) n = None"
    using Cons.prems by (auto simp add: step_pluginKeys)
  moreover have "\<forall>e \<in> set es. createPlugin e \<noteq> None \<longrightarrow> name e \<noteq> n"
    using Cons.prems(2) by simp
  ultimately show ?case
    unfolding all_Cons by (rule Cons.IH)
qed

lemma all_fst_Cons:
  "fst (createAllExtensionPlugins this (e # es))
     = fst (createEachExtensionPlugins this e)
       # fst (createAllExtensionPlugins (snd (createEachExtensionPlugins this e)) es)"
  by (simp add: split_beta Let_def)

lemma extension_untouched_all:
  "e \<in> set es \<Longrightarrow> createPlugin e = None \<Longrightarrow> e \<in> set (fst (createAllExtensionPlugins this es))"
proof (induction es arbitrary: this)
  case Nil
  then show ?case by simp
next
  case (Cons x es)
  show ?case
  proof (cases "e = x")
    case True
    then have "fst (createEachExtensionPlugins this x) = e"
      using Cons.prems(2) by (simp add: step_extension)
    then show ?thesis unfolding all_fst_Cons by simp
  next
    case False
    then have "e \<in> set es" using Cons.prems(1) by simp
    then have "e \<in> set (fst (createAllExtensionPlugins (snd (createEachExtensionPlugins this x)) es))"
      using Cons.prems(2) by (rule Cons.IH)
    then show ?thesis unfolding all_fst_Cons by simp
  qed
qed

lemma collected_append:
  "\<exists>a'. collected this a (xs @ ys) = collected this a xs @ collected this a' ys"
proof (induction xs arbitrary: a)
  case Nil
  have "collected this a ([] @ ys) = collected this a [] @ collected this a ys" by simp
  then show ?case by blast
next
  case (Cons x xs)
  show ?case
  proof (cases "skipsPlugins this x")
    case True
    with Cons.IH [of a] show ?thesis by simp
  next
    case False
    with Cons.IH [of "a + allocations x"] show ?thesis by simp
  qed
qed

lemma getStateByName_store:
  "stateGetters this i = None \<Longrightarrow>
   getStateByName (this\<lparr>store := st\<rparr>) i
     = Inl (RemirrorError None ''No plugin exists for the requested extension name.'')"
  by (simp add: getStateByName_def invariant_def Let_def)

section \<open>Append order of the published list\<close>

text \<open>
  C9. For every prior published list, \<^verbatim>\<open>addPlugins(p1, p2)\<close> followed by
  \<^verbatim>\<open>addPlugins(p3)\<close> yields the prior list followed by \<open>p1, p2, p3\<close>: each call appends
  its arguments in call order after all existing entries, no prior entry is removed or
  reordered, and the list published under the store key is the same list.
\<close>

theorem addPlugins_append_order:
  "plugins (addPlugins [p3] (addPlugins [p1, p2] this)) = plugins this @ [p1, p2, p3]
   \<and> store_plugins (store (addPlugins [p3] (addPlugins [p1, p2] this)))
       = Some (plugins this @ [p1, p2, p3])
   \<and> plugins (addPlugins ps this) = plugins this @ ps
   \<and> take (length (plugins this)) (plugins (addPlugins ps this)) = plugins this"
  by (simp add: addPlugins_def Let_def)

section \<open>Replacing a plugin\<close>

text \<open>
  C1. \<^verbatim>\<open>replacePlugin(original, replacement)\<close> is to swap every occurrence of
  \<open>original\<close> for \<open>replacement\<close> and to keep every other entry, and to leave the list
  unchanged when \<open>original\<close> is absent. The code maps every entry that is not
  \<open>original\<close> to \<open>original\<close>: with the list \<open>[a, b]\<close>, replacing \<open>a\<close> by \<open>c\<close> gives
  \<open>[c, a]\<close>, and with the list \<open>[b]\<close>, where \<open>a\<close> is absent, it gives \<open>[a]\<close>. Here
  \<open>a\<close>, \<open>b\<close>, \<open>c\<close> are the plugin objects at the addresses 0, 1, 2.
\<close>

theorem replacePlugin_overwrites_other_entries:
  "plugins (replacePlugin (Plugin 0 sp) (Plugin 2 sp)
              (this\<lparr>plugins := [Plugin 0 sp, Plugin 1 sp]\<rparr>))
     = [Plugin 2 sp, Plugin 0 sp]
   \<and> plugins (replacePlugin (Plugin 0 sp) (Plugin 2 sp) (this\<lparr>plugins := [Plugin 1 sp]\<rparr>))
     = [Plugin 0 sp]"
  by (simp add: replacePlugin_def Let_def)

section \<open>Exclusion of plugins\<close>

text \<open>
  C2, as stated: the extension-level exclusion option takes precedence over the
  manager-level setting, so that the extension's own setting decides whether its
  plugins are created. This fails: with the manager-level exclusion set and the
  extension's own option set to \<open>false\<close>, an extension that declares
  \<^verbatim>\<open>createPlugin\<close> is skipped all the same.
\<close>

theorem extension_setting_does_not_decide:
  "\<not> (\<forall>(this :: (unit, unit, unit) PluginsExtension) (e :: unit Extension) b.
         options_exclude (options e) = Some \<lparr>exclude_plugins = Some b\<rparr>
           \<and> createPlugin e \<noteq> None
         \<longrightarrow> skipsPlugins this e = b)"
proof
  assume claim: "\<forall>(this :: (unit, unit, unit) PluginsExtension) (e :: unit Extension) b.
         options_exclude (options e) = Some \<lparr>exclude_plugins = Some b\<rparr>
           \<and> createPlugin e \<noteq> None
         \<longrightarrow> skipsPlugins this e = b"
  let ?t0 = "new_PluginsExtension
                 (newStore \<lparr>settings_exclude = Some \<lparr>exclude_plugins = Some True\<rparr>\<rparr> 0 None) 0
               :: (unit, unit, unit) PluginsExtension"
  let ?e = "newExtension ''B'' 1 (Some \<lparr>exclude_plugins = Some False\<rparr>)
              (Some \<lparr>key = None, rest = ()\<rparr>) None :: unit Extension"
  have "skipsPlugins ?t0 ?e = False"
    using claim [rule_format, of ?e False ?t0] by (simp add: newExtension_def)
  moreover have "skipsPlugins ?t0 ?e"
    by (simp add: skipsPlugins_def excludesPlugins_def new_PluginsExtension_def newStore_def)
  ultimately show False by simp
qed

text \<open>
  C2, amended. Plugin creation is skipped for an extension when the manager-level
  exclusion setting or the extension-level exclusion option is set: the extension and
  the instance are left as they were. Neither setting overrides the other. When neither
  is set, the extension's plugins are created: its created plugin and then its external
  plugins are appended to the extension-plugin list.
\<close>

theorem exclusion_by_either_setting:
  "(excludesPlugins (settings_exclude (managerSettings (store this)))
      \<or> excludesPlugins (options_exclude (options e))
    \<longrightarrow> createEachExtensionPlugins this e = (e, this))
   \<and> (\<not> excludesPlugins (settings_exclude (managerSettings (store this)))
      \<and> \<not> excludesPlugins (options_exclude (options e))
    \<longrightarrow> extensionPlugins (snd (createEachExtensionPlugins this e))
          = extensionPlugins this @ ownPlugin (fresh this) e @ externalPlugins e)"
proof (intro conjI impI)
  assume "excludesPlugins (settings_exclude (managerSettings (store this)))
            \<or> excludesPlugins (options_exclude (options e))"
  then have "skipsPlugins this e" by (auto simp add: skipsPlugins_def)
  then show "createEachExtensionPlugins this e = (e, this)" by (rule step_skip)
next
  assume a: "\<not> excludesPlugins (settings_exclude (managerSettings (store this)))
      \<and> \<not> excludesPlugins (options_exclude (options e))"
  show "extensionPlugins (snd (createEachExtensionPlugins this e))
          = extensionPlugins this @ ownPlugin (fresh this) e @ externalPlugins e"
  proof (cases "skipsPlugins this e")
    case False
    then show ?thesis by (rule step_extensionPlugins)
  next
    case True
    with a have "createPlugin e = None" "createExternalPlugins e = None"
      by (simp_all add: skipsPlugins_def)
    with True show ?thesis by (simp add: step_skip ownPlugin_def externalPlugins_def)
  qed
qed

theorem exclusion_by_either_setting_witness:
  "createEachExtensionPlugins
     (new_PluginsExtension
        (newStore \<lparr>settings_exclude = Some \<lparr>exclude_plugins = Some True\<rparr>\<rparr> 0 None) 0
      :: (unit, unit, unit) PluginsExtension)
     (newExtension ''B'' 1 (Some \<lparr>exclude_plugins = Some False\<rparr>)
        (Some \<lparr>key = None, rest = ()\<rparr>) None)
   = (newExtension ''B'' 1 (Some \<lparr>exclude_plugins = Some False\<rparr>)
        (Some \<lparr>key = None, rest = ()\<rparr>) None,
      new_PluginsExtension
        (newStore \<lparr>settings_exclude = Some \<lparr>exclude_plugins = Some True\<rparr>\<rparr> 0 None) 0)
   \<and> extensionPlugins (snd (createEachExtensionPlugins
        (new_PluginsExtension (newStore \<lparr>settings_exclude = None\<rparr> 0 None) 0
          :: (unit, unit, unit) PluginsExtension)
        (newExtension ''B'' 1 (Some \<lparr>exclude_plugins = Some False\<rparr>)
          (Some \<lparr>key = None, rest = ()\<rparr>) (Some [Plugin 9 \<lparr>key = None, rest = ()\<rparr>]))))
     = [Plugin 1 \<lparr>key = Some (PluginKey 0 ''B''), rest = ()\<rparr>, Plugin 9 \<lparr>key = None, rest = ()\<rparr>]"
proof -
  let ?on = "new_PluginsExtension
        (newStore \<lparr>settings_exclude = Some \<lparr>exclude_plugins = Some True\<rparr>\<rparr> 0 None) 0
      :: (unit, unit, unit) PluginsExtension"
  let ?off = "new_PluginsExtension (newStore \<lparr>settings_exclude = None\<rparr> 0 None) 0
      :: (unit, unit, unit) PluginsExtension"
  let ?e = "newExtension ''B'' 1 (Some \<lparr>exclude_plugins = Some False\<rparr>)
        (Some \<lparr>key = None, rest = ()\<rparr>) None :: unit Extension"
  let ?f = "newExtension ''B'' 1 (Some \<lparr>exclude_plugins = Some False\<rparr>)
          (Some \<lparr>key = None, rest = ()\<rparr>) (Some [Plugin 9 \<lparr>key = None, rest = ()\<rparr>])
        :: unit Extension"
  have on: "excludesPlugins (settings_exclude (managerSettings (store ?on)))
              \<or> excludesPlugins (options_exclude (options ?e))"
    by (simp add: excludesPlugins_def new_PluginsExtension_def newStore_def)
  have off: "\<not> excludesPlugins (settings_exclude (managerSettings (store ?off)))
              \<and> \<not> excludesPlugins (options_exclude (options ?f))"
    by (simp add: excludesPlugins_def new_PluginsExtension_def newStore_def newExtension_def)
  have 1: "createEachExtensionPlugins ?on ?e = (?e, ?on)"
    using exclusion_by_either_setting [of ?on ?e] on by blast
  have 2: "extensionPlugins (snd (createEachExtensionPlugins ?off ?f))
          = extensionPlugins ?off @ ownPlugin (fresh ?off) ?f @ externalPlugins ?f"
    using exclusion_by_either_setting [of ?off ?f] off by blast
  have 3: "extensionPlugins ?off @ ownPlugin (fresh ?off) ?f @ externalPlugins ?f
         = [Plugin 1 \<lparr>key = Some (PluginKey 0 ''B''), rest = ()\<rparr>, Plugin 9 \<lparr>key = None, rest = ()\<rparr>]"
    by (simp add: ownPlugin_def externalPlugins_def new_PluginsExtension_def newExtension_def)
  show ?thesis using 1 2 3 by simp
qed

section \<open>Reconfiguration and its phase gate\<close>

text \<open>
  C3. Called while the manager phase is below the view-attached phase (the constant
  \<^verbatim>\<open>ManagerPhase.EditorView\<close>, here \<open>editorView\<close>), \<^verbatim>\<open>reconfigureStatePlugins()\<close> fails
  with the phase error, whose message says that the call is only allowed after the view
  has been added to the manager, and the instance is returned as it was: the published
  list, the registries and the view state are untouched. At or beyond that phase it is
  to derive a new state with the published plugin list and to install it as the view's
  state. The code does not get that far: it calls \<^verbatim>\<open>updateState\<close> without the view as
  receiver, so at or beyond the phase the call fails with a \<^verbatim>\<open>TypeError\<close>, whether a
  view is attached or not, and the instance is again returned as it was.
\<close>

theorem reconfigureStatePlugins_phase_gate:
  "(phase (store this) < editorView
      \<longrightarrow> reconfigureStatePlugins editorView this
            = (Inl (RemirrorError (Some MANAGER_PHASE_ERROR)
                 ''`reconfigureStatePlugins` should only be called after the view has been added to the manager.''),
               this))
   \<and> (editorView \<le> phase (store this)
      \<longrightarrow> reconfigureStatePlugins editorView this = (Inl TypeError, this))"
  by (simp add: reconfigureStatePlugins_def invariant_def updateState_def Let_def
      split: option.splits)

theorem reconfigureStatePlugins_phase_gate_witness:
  "reconfigureStatePlugins 2
     ((new_PluginsExtension (newStore \<lparr>settings_exclude = None\<rparr> 0 None) 0
        :: (unit, nat, string) PluginsExtension)
      \<lparr>plugins := [Plugin 5 \<lparr>key = None, rest = ()\<rparr>]\<rparr>)
   = (Inl (RemirrorError (Some MANAGER_PHASE_ERROR)
        ''`reconfigureStatePlugins` should only be called after the view has been added to the manager.''),
      (new_PluginsExtension (newStore \<lparr>settings_exclude = None\<rparr> 0 None) 0)
      \<lparr>plugins := [Plugin 5 \<lparr>key = None, rest = ()\<rparr>]\<rparr>)
   \<and> reconfigureStatePlugins 2
     ((new_PluginsExtension
         (newStore \<lparr>settings_exclude = None\<rparr> 2
            (Some \<lparr>state = \<lparr>state_plugins = [], plugin_fields = Map.empty, doc = ''d''\<rparr>\<rparr>)) 0
        :: (unit, nat, string) PluginsExtension)
      \<lparr>plugins := [Plugin 5 \<lparr>key = None, rest = ()\<rparr>]\<rparr>)
   = (Inl TypeError,
      (new_PluginsExtension
         (newStore \<lparr>settings_exclude = None\<rparr> 2
            (Some \<lparr>state = \<lparr>state_plugins = [], plugin_fields = Map.empty, doc = ''d''\<rparr>\<rparr>)) 0)
      \<lparr>plugins := [Plugin 5 \<lparr>key = None, rest = ()\<rparr>]\<rparr>)"
proof -
  let ?v = "\<lparr>state = \<lparr>state_plugins = [], plugin_fields = Map.empty, doc = ''d''\<rparr>\<rparr>
              :: (unit, nat, string) EditorView"
  let ?early = "(new_PluginsExtension (newStore \<lparr>settings_exclude = None\<rparr> 0 None) 0
        :: (unit, nat, string) PluginsExtension)
      \<lparr>plugins := [Plugin 5 \<lparr>key = None, rest = ()\<rparr>]\<rparr>"
  let ?late = "(new_PluginsExtension (newStore \<lparr>settings_exclude = None\<rparr> 2 (Some ?v)) 0
        :: (unit, nat, string) PluginsExtension)
      \<lparr>plugins := [Plugin 5 \<lparr>key = None, rest = ()\<rparr>]\<rparr>"
  have early: "phase (store ?early) < 2"
    by (simp add: new_PluginsExtension_def newStore_def)
  have late: "2 \<le> phase (store ?late)"
    by (simp add: new_PluginsExtension_def newStore_def)
  have 1: "reconfigureStatePlugins 2 ?early
            = (Inl (RemirrorError (Some MANAGER_PHASE_ERROR)
                 ''`reconfigureStatePlugins` should only be called after the view has been added to the manager.''),
               ?early)"
    using reconfigureStatePlugins_phase_gate [of ?early 2] early by blast
  have 2: "reconfigureStatePlugins 2 ?late = (Inl TypeError, ?late)"
    using reconfigureStatePlugins_phase_gate [of ?late 2] late by blast
  show ?thesis
    using 1 2 by simp
qed

section \<open>Looking up an unregistered identifier\<close>

text \<open>
  C4. For every identifier, a name or a constructor, under which no state getter is
  registered, \<^verbatim>\<open>getStateByName\<close> (published as \<^verbatim>\<open>getPluginState\<close>) fails with the
  descriptive not-found error; it does not return a value, so never \<^verbatim>\<open>undefined\<close> or
  \<^verbatim>\<open>null\<close>. In particular, an identifier that was not registered before \<^verbatim>\<open>onCreate\<close> and
  that is neither the name nor the constructor of a processed extension declaring
  \<^verbatim>\<open>createPlugin\<close> is not registered by \<^verbatim>\<open>onCreate\<close>, and its lookup fails in this way
  at any later point, whatever the store \<open>st\<close> has become.
\<close>

theorem getStateByName_not_found:
  "(stateGetters this identifier = None
      \<longrightarrow> getStateByName this identifier
            = Inl (RemirrorError None ''No plugin exists for the requested extension name.''))
   \<and> (stateGetters this identifier = None
        \<and> (\<forall>e \<in> set extensions. createPlugin e \<noteq> None
              \<longrightarrow> identifier \<noteq> ByName (name e) \<and> identifier \<noteq> ByConstructor (constructor e))
      \<longrightarrow> getStateByName ((snd (onCreate this extensions))\<lparr>store := st\<rparr>) identifier
            = Inl (RemirrorError None ''No plugin exists for the requested extension name.''))"
proof (intro conjI impI)
  assume "stateGetters this identifier = None"
  then show "getStateByName this identifier
               = Inl (RemirrorError None ''No plugin exists for the requested extension name.'')"
    by (simp add: getStateByName_def invariant_def Let_def)
next
  assume h: "stateGetters this identifier = None
        \<and> (\<forall>e \<in> set extensions. createPlugin e \<noteq> None
              \<longrightarrow> identifier \<noteq> ByName (name e) \<and> identifier \<noteq> ByConstructor (constructor e))"
  have "stateGetters (snd (onCreate this extensions)) identifier = None"
    unfolding onCreate_stateGetters using h
    by (intro getters_absent_all) (simp_all add: updateExtensionStore_fields)
  then show "getStateByName ((snd (onCreate this extensions))\<lparr>store := st\<rparr>) identifier
               = Inl (RemirrorError None ''No plugin exists for the requested extension name.'')"
    by (rule getStateByName_store)
qed

theorem getStateByName_not_found_witness:
  "getStateByName
     (new_PluginsExtension (newStore \<lparr>settings_exclude = None\<rparr> 2 None) 0
       :: (unit, nat, string) PluginsExtension) (ByName ''missing'')
     = Inl (RemirrorError None ''No plugin exists for the requested extension name.'')
   \<and> getStateByName
     ((snd (onCreate
        (new_PluginsExtension (newStore \<lparr>settings_exclude = None\<rparr> 0 None) 0
          :: (unit, nat, string) PluginsExtension)
        [newExtension ''B'' 11 None (Some \<lparr>key = None, rest = ()\<rparr>) None]))
      \<lparr>store := newStore \<lparr>settings_exclude = None\<rparr> 2
         (Some \<lparr>state = \<lparr>state_plugins = [], plugin_fields = Map.empty, doc = ''d''\<rparr>\<rparr>)\<rparr>)
     (ByConstructor 4)
     = Inl (RemirrorError None ''No plugin exists for the requested extension name.'')"
proof -
  let ?t0 = "new_PluginsExtension (newStore \<lparr>settings_exclude = None\<rparr> 2 None) 0
       :: (unit, nat, string) PluginsExtension"
  let ?t1 = "new_PluginsExtension (newStore \<lparr>settings_exclude = None\<rparr> 0 None) 0
       :: (unit, nat, string) PluginsExtension"
  let ?B = "newExtension ''B'' 11 None (Some \<lparr>key = None, rest = ()\<rparr>) None :: unit Extension"
  let ?st = "newStore \<lparr>settings_exclude = None\<rparr> 2
         (Some \<lparr>state = \<lparr>state_plugins = [], plugin_fields = Map.empty, doc = ''d''\<rparr>\<rparr>)
       :: (unit, nat, string) Store"
  have none: "stateGetters ?t0 (ByName ''missing'') = None"
    by (simp add: new_PluginsExtension_def)
  have h: "stateGetters ?t1 (ByConstructor 4) = None
        \<and> (\<forall>e \<in> set [?B]. createPlugin e \<noteq> None
              \<longrightarrow> ByConstructor 4 \<noteq> ByName (name e)
                \<and> ByConstructor 4 \<noteq> ByConstructor (constructor e))"
    by (simp add: new_PluginsExtension_def newExtension_def)
  have 1: "getStateByName ?t0 (ByName ''missing'')
             = Inl (RemirrorError None ''No plugin exists for the requested extension name.'')"
    using getStateByName_not_found [of ?t0 "ByName ''missing''"] none by blast
  have 2: "getStateByName ((snd (onCreate ?t1 [?B]))\<lparr>store := ?st\<rparr>) (ByConstructor 4)
             = Inl (RemirrorError None ''No plugin exists for the requested extension name.'')"
    using getStateByName_not_found [of ?t1 "ByConstructor 4" "[?B]" ?st] h by blast
  show ?thesis using 1 2 by simp
qed

section \<open>Fields attached to an extension\<close>

text \<open>
  C6. After the create phase, an extension that declares \<^verbatim>\<open>createPlugin\<close> and is not
  excluded is to carry the fields \<open>pluginKey\<close>, \<open>getPluginState\<close> and \<open>plugin\<close>. The
  code attaches the first two and creates the plugin, which it pushes to the
  extension-plugin list, but it never assigns the field \<open>plugin\<close>: for a single such
  extension, processed by a fresh instance whose manager excludes nothing, the field is
  still \<^verbatim>\<open>undefined\<close> after \<^verbatim>\<open>onCreate\<close>.
\<close>

theorem created_plugin_is_not_attached:
  "fst (onCreate (new_PluginsExtension (newStore \<lparr>settings_exclude = None\<rparr> ph v) a)
         [newExtension n c None (Some created) None])
     = [(newExtension n c None (Some created) None)
          \<lparr>pluginKey := Some (PluginKey a n), getPluginState := Some (Getter (PluginKey a n))\<rparr>]
   \<and> map plugin
         (fst (onCreate (new_PluginsExtension (newStore \<lparr>settings_exclude = None\<rparr> ph v) a)
            [newExtension n c None (Some created) None]))
     = [None]
   \<and> extensionPlugins
         (snd (onCreate (new_PluginsExtension (newStore \<lparr>settings_exclude = None\<rparr> ph v) a)
            [newExtension n c None (Some created) None]))
     = [Plugin (Suc a) (created\<lparr>key := Some (PluginKey a n)\<rparr>)]"
proof -
  let ?t0 = "new_PluginsExtension (newStore \<lparr>settings_exclude = None\<rparr> ph v) a"
  let ?e = "newExtension n c None (Some created) None"
  have skip: "\<not> skipsPlugins (updateExtensionStore ?t0) ?e"
    by (simp add: skipsPlugins_update)
      (simp add: skipsPlugins_def excludesPlugins_def new_PluginsExtension_def newStore_def
        newExtension_def)
  have ext: "fst (onCreate ?t0 [?e])
               = [?e\<lparr>pluginKey := Some (PluginKey a n),
                     getPluginState := Some (Getter (PluginKey a n))\<rparr>]"
    using skip
    by (simp add: onCreate_fst split_beta Let_def step_extension updateExtensionStore_fields)
      (simp add: newExtension_def new_PluginsExtension_def)
  have none: "map plugin (fst (onCreate ?t0 [?e])) = [None]"
    unfolding ext by (simp add: newExtension_def)
  have skip0: "\<not> skipsPlugins ?t0 ?e"
    using skip by (simp add: skipsPlugins_update)
  have made: "extensionPlugins (snd (onCreate ?t0 [?e]))
                = [Plugin (Suc a) (created\<lparr>key := Some (PluginKey a n)\<rparr>)]"
    using skip0
    by (simp add: onCreate_extensionPlugins ownPlugin_def externalPlugins_def)
      (simp add: newExtension_def new_PluginsExtension_def)
  show ?thesis using ext none made by simp
qed

section \<open>Reconfiguration followed by an addition\<close>

text \<open>
  C7. After a successful \<^verbatim>\<open>reconfigureStatePlugins\<close> the plugin set of the view's state
  is to be exactly the published plugin list, and a following \<^verbatim>\<open>addPlugins\<close> call alone
  is to leave it unchanged. The second part holds: \<^verbatim>\<open>addPlugins\<close> changes the published
  list and the copy of it under the store key, and nothing else, so the view is as it
  was. The first part does not: \<^verbatim>\<open>reconfigureStatePlugins\<close> never succeeds and never
  changes the instance, because it calls \<^verbatim>\<open>updateState\<close> without the view as receiver.
  With the view attached, the phase reached, the published list \<open>[p]\<close> (\<open>p\<close> the plugin
  object at address 5) and a view state whose plugin set is empty, the call fails with a
  \<^verbatim>\<open>TypeError\<close> and the plugin set of the view's state is still empty.
\<close>

theorem reconfigure_installs_nothing:
  "fst (reconfigureStatePlugins editorView this) \<noteq> Inr ()
   \<and> snd (reconfigureStatePlugins editorView this) = this
   \<and> view (store (addPlugins ps this)) = view (store this)
   \<and> addPlugins ps this
       = this\<lparr>plugins := plugins this @ ps,
              store := (store this)\<lparr>store_plugins := Some (plugins this @ ps)\<rparr>\<rparr>
   \<and> fst (reconfigureStatePlugins 2
         (new_PluginsExtension
            (newStore \<lparr>settings_exclude = None\<rparr> 2
               (Some \<lparr>state = \<lparr>state_plugins = [], plugin_fields = pf, doc = d\<rparr>\<rparr>)) a
          \<lparr>plugins := [Plugin 5 sp]\<rparr>))
       = Inl TypeError
   \<and> map_option (\<lambda>v. state_plugins (state v))
         (view (store (snd (reconfigureStatePlugins 2
            (new_PluginsExtension
               (newStore \<lparr>settings_exclude = None\<rparr> 2
                  (Some \<lparr>state = \<lparr>state_plugins = [], plugin_fields = pf, doc = d\<rparr>\<rparr>)) a
             \<lparr>plugins := [Plugin 5 sp]\<rparr>)))))
       = Some []"
proof -
  have never: "fst (reconfigureStatePlugins editorView this) \<noteq> Inr ()"
    and same: "snd (reconfigureStatePlugins editorView this) = this"
    by (simp_all add: reconfigureStatePlugins_def invariant_def updateState_def Let_def
        split: option.splits)
  have frame: "addPlugins ps this
       = this\<lparr>plugins := plugins this @ ps,
              store := (store this)\<lparr>store_plugins := Some (plugins this @ ps)\<rparr>\<rparr>"
    by (simp add: addPlugins_def Let_def)
  have untouched: "view (store (addPlugins ps this)) = view (store this)"
    by (simp add: addPlugins_def Let_def)
  let ?late = "new_PluginsExtension
            (newStore \<lparr>settings_exclude = None\<rparr> 2
               (Some \<lparr>state = \<lparr>state_plugins = [], plugin_fields = pf, doc = d\<rparr>\<rparr>)) a
          \<lparr>plugins := [Plugin 5 sp]\<rparr>"
  have err: "fst (reconfigureStatePlugins 2 ?late) = Inl TypeError"
    by (simp add: reconfigureStatePlugins_def invariant_def updateState_def Let_def
        new_PluginsExtension_def newStore_def)
  have still: "map_option (\<lambda>v. state_plugins (state v))
                 (view (store (snd (reconfigureStatePlugins 2 ?late)))) = Some []"
    by (simp add: reconfigureStatePlugins_def invariant_def updateState_def Let_def
        new_PluginsExtension_def newStore_def)
  show ?thesis
    using never same untouched frame err still by simp
qed

section \<open>Order of the extension-plugin list\<close>

text \<open>
  C5. For every input extension sequence, \<^verbatim>\<open>onCreate\<close> appends to the extension-plugin
  list the contributions of the extensions in input order, and within one extension the
  plugin made from its \<^verbatim>\<open>createPlugin\<close> result comes before its external plugins. In
  particular, for a fresh instance whose manager excludes nothing, processing
  \<open>[A, B, C]\<close>, where \<open>A\<close> declares no plugin, \<open>B\<close> declares \<^verbatim>\<open>createPlugin\<close> returning
  \<open>spec1\<close> and \<open>C\<close> declares \<^verbatim>\<open>createExternalPlugins\<close> returning \<open>[x, y]\<close>, yields the
  list of the plugin made from \<open>spec1\<close> with the key allocated for \<open>B\<close>, then \<open>x\<close>, then
  \<open>y\<close>, and the key map with the single entry for \<open>B\<close>; the allocated key replaces
  any key that \<open>spec1\<close> has.
\<close>

theorem collector_preserves_order:
  "extensionPlugins (snd (onCreate this extensions))
     = extensionPlugins this @ collected this (fresh this) extensions
   \<and> extensionPlugins
       (snd (onCreate (new_PluginsExtension (newStore \<lparr>settings_exclude = None\<rparr> ph v) a)
          [newExtension nA cA None None None,
           newExtension nB cB None (Some spec1) None,
           newExtension nC cC None None (Some [x, y])]))
     = [Plugin (Suc a) (spec1\<lparr>key := Some (PluginKey a nB)\<rparr>), x, y]
   \<and> pluginKeys
       (snd (onCreate (new_PluginsExtension (newStore \<lparr>settings_exclude = None\<rparr> ph v) a)
          [newExtension nA cA None None None,
           newExtension nB cB None (Some spec1) None,
           newExtension nC cC None None (Some [x, y])]))
     = [nB \<mapsto> PluginKey a nB]
   \<and> key (spec1\<lparr>key := Some (PluginKey a nB)\<rparr>) = Some (PluginKey a nB)"
proof -
  let ?t0 = "new_PluginsExtension (newStore \<lparr>settings_exclude = None\<rparr> ph v) a"
  let ?A = "newExtension nA cA None None None"
  let ?B = "newExtension nB cB None (Some spec1) None"
  let ?C = "newExtension nC cC None None (Some [x, y])"
  let ?u = "updateExtensionStore ?t0"
  have skips: "skipsPlugins ?t0 ?A" "\<not> skipsPlugins ?t0 ?B" "\<not> skipsPlugins ?t0 ?C"
    by (simp_all add: skipsPlugins_def excludesPlugins_def new_PluginsExtension_def
        newStore_def newExtension_def)
  have general: "extensionPlugins (snd (onCreate this extensions))
     = extensionPlugins this @ collected this (fresh this) extensions"
    by (rule onCreate_extensionPlugins)
  have "collected ?t0 (fresh ?t0) [?A, ?B, ?C]
          = [Plugin (Suc a) (spec1\<lparr>key := Some (PluginKey a nB)\<rparr>), x, y]"
    using skips
    by (simp add: ownPlugin_def externalPlugins_def)
      (simp add: new_PluginsExtension_def newExtension_def)
  then have list: "extensionPlugins (snd (onCreate ?t0 [?A, ?B, ?C]))
     = [Plugin (Suc a) (spec1\<lparr>key := Some (PluginKey a nB)\<rparr>), x, y]"
    by (simp add: onCreate_extensionPlugins) (simp add: new_PluginsExtension_def)
  have uskips: "skipsPlugins ?u ?A" "\<not> skipsPlugins ?u ?B" "\<not> skipsPlugins ?u ?C"
    using skips by (simp_all add: skipsPlugins_update)
  have stepA: "snd (createEachExtensionPlugins ?u ?A) = ?u"
    using uskips(1) by (simp add: step_skip)
  have keysB: "pluginKeys (snd (createEachExtensionPlugins ?u ?B)) = [nB \<mapsto> PluginKey a nB]"
    using uskips(2)
    by (simp add: step_pluginKeys updateExtensionStore_fields)
      (simp add: new_PluginsExtension_def newExtension_def)
  have keysC: "pluginKeys (snd (createEachExtensionPlugins (snd (createEachExtensionPlugins ?u ?B)) ?C))
                 = pluginKeys (snd (createEachExtensionPlugins ?u ?B))"
    by (simp add: step_pluginKeys) (simp add: newExtension_def)
  have keys: "pluginKeys (snd (onCreate ?t0 [?A, ?B, ?C])) = [nB \<mapsto> PluginKey a nB]"
    by (simp add: onCreate_pluginKeys split_beta Let_def stepA keysC keysB)
  show ?thesis using general list keys by simp
qed

theorem collector_preserves_order_witness:
  "extensionPlugins
     (snd (onCreate
        (new_PluginsExtension (newStore \<lparr>settings_exclude = None\<rparr> 1 None) 0
          :: (string, nat, string) PluginsExtension)
        [newExtension ''A'' 10 None None None,
         newExtension ''B'' 11 None (Some \<lparr>key = Some (PluginKey 99 ''other''), rest = ''spec1''\<rparr>) None,
         newExtension ''C'' 12 None None
           (Some [Plugin 20 \<lparr>key = None, rest = ''x''\<rparr>, Plugin 21 \<lparr>key = None, rest = ''y''\<rparr>])]))
   = [Plugin 1 \<lparr>key = Some (PluginKey 0 ''B''), rest = ''spec1''\<rparr>,
      Plugin 20 \<lparr>key = None, rest = ''x''\<rparr>, Plugin 21 \<lparr>key = None, rest = ''y''\<rparr>]
   \<and> pluginKeys
     (snd (onCreate
        (new_PluginsExtension (newStore \<lparr>settings_exclude = None\<rparr> 1 None) 0
          :: (string, nat, string) PluginsExtension)
        [newExtension ''A'' 10 None None None,
         newExtension ''B'' 11 None (Some \<lparr>key = Some (PluginKey 99 ''other''), rest = ''spec1''\<rparr>) None,
         newExtension ''C'' 12 None None
           (Some [Plugin 20 \<lparr>key = None, rest = ''x''\<rparr>, Plugin 21 \<lparr>key = None, rest = ''y''\<rparr>])]))
   = [''B'' \<mapsto> PluginKey 0 ''B'']"
proof -
  let ?t0 = "new_PluginsExtension (newStore \<lparr>settings_exclude = None\<rparr> 1 None) 0
          :: (string, nat, string) PluginsExtension"
  let ?es = "[newExtension ''A'' 10 None None None,
         newExtension ''B'' 11 None (Some \<lparr>key = Some (PluginKey 99 ''other''), rest = ''spec1''\<rparr>) None,
         newExtension ''C'' 12 None None
           (Some [Plugin 20 \<lparr>key = None, rest = ''x''\<rparr>, Plugin 21 \<lparr>key = None, rest = ''y''\<rparr>])]"
  note w = collector_preserves_order
    [of ?t0 ?es 1 None 0 "''A''" 10 "''B''" 11
        "\<lparr>key = Some (PluginKey 99 ''other''), rest = ''spec1''\<rparr>" "''C''" 12
        "Plugin 20 \<lparr>key = None, rest = ''x''\<rparr>" "Plugin 21 \<lparr>key = None, rest = ''y''\<rparr>"]
  from w have 1: "extensionPlugins (snd (onCreate ?t0 ?es))
     = [Plugin (Suc 0) (\<lparr>key = Some (PluginKey 99 ''other''), rest = ''spec1''\<rparr>
                          \<lparr>key := Some (PluginKey 0 ''B'')\<rparr>),
        Plugin 20 \<lparr>key = None, rest = ''x''\<rparr>, Plugin 21 \<lparr>key = None, rest = ''y''\<rparr>]"
    by blast
  from w have 2: "pluginKeys (snd (onCreate ?t0 ?es)) = [''B'' \<mapsto> PluginKey 0 ''B'']"
    by blast
  show ?thesis unfolding 1 2 by simp
qed

section \<open>Lookup by name and by constructor\<close>

text \<open>
  C8, as stated: for every extension \<open>E\<close> that declares \<^verbatim>\<open>createPlugin\<close> and is not
  excluded, the lookups by \<open>E\<close>'s name and by \<open>E\<close>'s constructor return identical values
  once the view exists. This fails when a later extension shares only one of the two
  identifiers: the second registration overwrites the first. Two extensions named
  \<open>a\<close> and \<open>b\<close> with the same constructor (the class at address 7), both declaring
  \<^verbatim>\<open>createPlugin\<close>, are processed by a fresh instance; afterwards the view is attached,
  and the plugin states of the two keys are 1 and 2. The lookup by the name \<open>a\<close>
  returns 1, the lookup by the constructor of \<open>a\<close> returns 2.
\<close>

theorem shared_constructor_getters_differ:
  "getStateByName
     ((snd (onCreate
         (new_PluginsExtension (newStore \<lparr>settings_exclude = None\<rparr> 0 None) 0
           :: (unit, nat, unit) PluginsExtension)
         [newExtension ''a'' 7 None (Some \<lparr>key = None, rest = ()\<rparr>) None,
          newExtension ''b'' 7 None (Some \<lparr>key = None, rest = ()\<rparr>) None]))
      \<lparr>store := newStore \<lparr>settings_exclude = None\<rparr> 2
         (Some \<lparr>state = \<lparr>state_plugins = [],
                          plugin_fields = [PluginKey 0 ''a'' \<mapsto> 1, PluginKey 2 ''b'' \<mapsto> 2],
                          doc = ()\<rparr>\<rparr>)\<rparr>)
     (ByName ''a'')
   = Inr (Some 1)
   \<and> getStateByName
     ((snd (onCreate
         (new_PluginsExtension (newStore \<lparr>settings_exclude = None\<rparr> 0 None) 0
           :: (unit, nat, unit) PluginsExtension)
         [newExtension ''a'' 7 None (Some \<lparr>key = None, rest = ()\<rparr>) None,
          newExtension ''b'' 7 None (Some \<lparr>key = None, rest = ()\<rparr>) None]))
      \<lparr>store := newStore \<lparr>settings_exclude = None\<rparr> 2
         (Some \<lparr>state = \<lparr>state_plugins = [],
                          plugin_fields = [PluginKey 0 ''a'' \<mapsto> 1, PluginKey 2 ''b'' \<mapsto> 2],
                          doc = ()\<rparr>\<rparr>)\<rparr>)
     (ByConstructor 7)
   = Inr (Some 2)"
proof -
  let ?t0 = "new_PluginsExtension (newStore \<lparr>settings_exclude = None\<rparr> 0 None) 0
           :: (unit, nat, unit) PluginsExtension"
  let ?E1 = "newExtension ''a'' 7 None (Some \<lparr>key = None, rest = ()\<rparr>) None :: unit Extension"
  let ?E2 = "newExtension ''b'' 7 None (Some \<lparr>key = None, rest = ()\<rparr>) None :: unit Extension"
  let ?u = "updateExtensionStore ?t0"
  let ?s1 = "snd (createEachExtensionPlugins ?u ?E1)"
  let ?s2 = "snd (createEachExtensionPlugins ?s1 ?E2)"
  have skips: "\<not> skipsPlugins ?u ?E1" "\<not> skipsPlugins ?u ?E2"
    by (simp_all add: skipsPlugins_update)
      (simp_all add: skipsPlugins_def excludesPlugins_def new_PluginsExtension_def
        newStore_def newExtension_def)
  have e1: "name ?E1 = ''a''" "constructor ?E1 = 7"
      "createPlugin ?E1 = Some \<lparr>key = None, rest = ()\<rparr>"
    and e2: "name ?E2 = ''b''" "constructor ?E2 = 7"
      "createPlugin ?E2 = Some \<lparr>key = None, rest = ()\<rparr>"
    by (simp_all add: newExtension_def)
  have f0: "fresh ?u = 0"
    by (simp add: updateExtensionStore_fields new_PluginsExtension_def)
  have a1: "allocations ?E1 = 2"
    by (simp add: allocations_def newExtension_def)
  have f1: "fresh ?s1 = 2"
    by (simp add: step_fresh [OF skips(1)] f0 a1)
  have g1: "stateGetters ?s1 (ByName ''a'') = Some (Getter (PluginKey 0 ''a''))"
    by (subst step_stateGetters) (simp add: skips e1 f0)
  have s2: "stateGetters ?s2
              = (stateGetters ?s1)
                  (ByName ''b'' \<mapsto> Getter (PluginKey 2 ''b''),
                   ByConstructor 7 \<mapsto> Getter (PluginKey 2 ''b''))"
    by (subst step_stateGetters) (simp add: skipsPlugins_step skips e2 f1)
  have g2: "stateGetters ?s2 (ByName ''a'') = Some (Getter (PluginKey 0 ''a''))"
    "stateGetters ?s2 (ByConstructor 7) = Some (Getter (PluginKey 2 ''b''))"
    by (simp_all add: s2 g1)
  have run: "stateGetters (snd (onCreate ?t0 [?E1, ?E2])) = stateGetters ?s2"
    by (simp only: onCreate_stateGetters all_Cons createAllExtensionPlugins.simps(1) snd_conv)
  let ?st = "newStore \<lparr>settings_exclude = None\<rparr> 2
         (Some \<lparr>state = \<lparr>state_plugins = [],
                          plugin_fields = [PluginKey 0 ''a'' \<mapsto> 1, PluginKey 2 ''b'' \<mapsto> 2],
                          doc = ()\<rparr>\<rparr>) :: (unit, nat, unit) Store"
  let ?later = "(snd (onCreate ?t0 [?E1, ?E2]))\<lparr>store := ?st\<rparr>"
  have n: "getStateByName ?later (ByName ''a'') = callGetter ?later (Getter (PluginKey 0 ''a''))"
    by (rule getStateByName_registered) (simp add: run g2)
  have c: "getStateByName ?later (ByConstructor 7) = callGetter ?later (Getter (PluginKey 2 ''b''))"
    by (rule getStateByName_registered) (simp add: run g2)
  show ?thesis
    unfolding n c by (simp add: callGetter_def utils_getPluginState_def newStore_def)
qed

text \<open>
  C8, amended. Let \<open>E\<close> be one of the processed extensions, declaring \<^verbatim>\<open>createPlugin\<close>
  and not excluded, and let every processed extension that declares \<^verbatim>\<open>createPlugin\<close>
  have \<open>E\<close>'s name exactly when it has \<open>E\<close>'s constructor. Then after \<^verbatim>\<open>onCreate\<close> the
  name and the constructor of \<open>E\<close> are registered with one and the same getter, and
  at any later point, whatever the store \<open>st\<close> has become, both lookups are the call of
  that getter and so return identical results.
\<close>

theorem name_and_constructor_share_getter:
  assumes "E \<in> set extensions"
    and "createPlugin E \<noteq> None"
    and "\<not> excludesPlugins (settings_exclude (managerSettings (store this)))"
    and "\<not> excludesPlugins (options_exclude (options E))"
    and "\<forall>e \<in> set extensions.
           createPlugin e \<noteq> None \<longrightarrow> (name e = name E) = (constructor e = constructor E)"
  shows "\<exists>g. stateGetters (snd (onCreate this extensions)) (ByName (name E)) = Some g
           \<and> stateGetters (snd (onCreate this extensions)) (ByConstructor (constructor E)) = Some g
           \<and> getStateByName ((snd (onCreate this extensions))\<lparr>store := st\<rparr>) (ByName (name E))
               = callGetter ((snd (onCreate this extensions))\<lparr>store := st\<rparr>) g
           \<and> getStateByName ((snd (onCreate this extensions))\<lparr>store := st\<rparr>)
                 (ByConstructor (constructor E))
               = callGetter ((snd (onCreate this extensions))\<lparr>store := st\<rparr>) g"
proof -
  let ?u = "updateExtensionStore this"
  let ?after = "snd (onCreate this extensions)"
  from assms(1) obtain xs ys where split: "extensions = xs @ E # ys"
    by (auto simp add: in_set_conv_decomp)
  let ?s1 = "snd (createAllExtensionPlugins ?u xs)"
  let ?s2 = "snd (createEachExtensionPlugins ?s1 E)"
  have run: "snd (createAllExtensionPlugins ?u extensions)
               = snd (createAllExtensionPlugins ?s2 ys)"
    by (simp only: split all_append all_Cons)
  have "\<not> skipsPlugins this E"
    using assms(2-4) by (simp add: skipsPlugins_def)
  then have noskip: "\<not> skipsPlugins ?s1 E"
    by (simp add: skipsPlugins_all skipsPlugins_update)
  have n: "stateGetters ?s2 (ByName (name E)) = Some (Getter (PluginKey (fresh ?s1) (name E)))"
    using noskip assms(2) by (rule getters_registered_step)
  have c: "stateGetters ?s2 (ByConstructor (constructor E))
             = Some (Getter (PluginKey (fresh ?s1) (name E)))"
    using noskip assms(2) by (rule getters_registered_step)
  have rest: "\<forall>e \<in> set ys.
           createPlugin e \<noteq> None \<longrightarrow> (name e = name E) = (constructor e = constructor E)"
    using assms(5) by (simp add: split)
  have agree: "stateGetters ?after (ByName (name E))
                 = stateGetters ?after (ByConstructor (constructor E))"
    unfolding onCreate_stateGetters run
    by (rule getters_agree_all [OF _ rest]) (simp add: n c)
  have "stateGetters ?after (ByName (name E)) \<noteq> None"
    unfolding onCreate_stateGetters run
    by (rule getters_stay_all) (simp add: n)
  then obtain g where g: "stateGetters ?after (ByName (name E)) = Some g"
    by blast
  with agree have g': "stateGetters ?after (ByConstructor (constructor E)) = Some g"
    by simp
  have "getStateByName (?after\<lparr>store := st\<rparr>) (ByName (name E))
               = callGetter (?after\<lparr>store := st\<rparr>) g"
    by (rule getStateByName_registered) (simp add: g)
  moreover have "getStateByName (?after\<lparr>store := st\<rparr>) (ByConstructor (constructor E))
               = callGetter (?after\<lparr>store := st\<rparr>) g"
    by (rule getStateByName_registered) (simp add: g')
  ultimately show ?thesis using g g' by blast
qed

theorem name_and_constructor_share_getter_witness:
  "getStateByName
     ((snd (onCreate
         (new_PluginsExtension (newStore \<lparr>settings_exclude = None\<rparr> 0 None) 0
           :: (unit, nat, unit) PluginsExtension)
         [newExtension ''a'' 7 None (Some \<lparr>key = None, rest = ()\<rparr>) None,
          newExtension ''c'' 8 None (Some \<lparr>key = None, rest = ()\<rparr>) None]))
      \<lparr>store := newStore \<lparr>settings_exclude = None\<rparr> 2
         (Some \<lparr>state = \<lparr>state_plugins = [],
                          plugin_fields = [PluginKey 0 ''a'' \<mapsto> 1, PluginKey 2 ''c'' \<mapsto> 2],
                          doc = ()\<rparr>\<rparr>)\<rparr>)
     (ByName ''a'')
   = getStateByName
     ((snd (onCreate
         (new_PluginsExtension (newStore \<lparr>settings_exclude = None\<rparr> 0 None) 0
           :: (unit, nat, unit) PluginsExtension)
         [newExtension ''a'' 7 None (Some \<lparr>key = None, rest = ()\<rparr>) None,
          newExtension ''c'' 8 None (Some \<lparr>key = None, rest = ()\<rparr>) None]))
      \<lparr>store := newStore \<lparr>settings_exclude = None\<rparr> 2
         (Some \<lparr>state = \<lparr>state_plugins = [],
                          plugin_fields = [PluginKey 0 ''a'' \<mapsto> 1, PluginKey 2 ''c'' \<mapsto> 2],
                          doc = ()\<rparr>\<rparr>)\<rparr>)
     (ByConstructor 7)
   \<and> stateGetters
       (snd (onCreate
         (new_PluginsExtension (newStore \<lparr>settings_exclude = None\<rparr> 0 None) 0
           :: (unit, nat, unit) PluginsExtension)
         [newExtension ''a'' 7 None (Some \<lparr>key = None, rest = ()\<rparr>) None,
          newExtension ''c'' 8 None (Some \<lparr>key = None, rest = ()\<rparr>) None]))
       (ByName ''a'')
     = stateGetters
       (snd (onCreate
         (new_PluginsExtension (newStore \<lparr>settings_exclude = None\<rparr> 0 None) 0
           :: (unit, nat, unit) PluginsExtension)
         [newExtension ''a'' 7 None (Some \<lparr>key = None, rest = ()\<rparr>) None,
          newExtension ''c'' 8 None (Some \<lparr>key = None, rest = ()\<rparr>) None]))
       (ByConstructor 7)"
proof -
  let ?t0 = "new_PluginsExtension (newStore \<lparr>settings_exclude = None\<rparr> 0 None) 0
           :: (unit, nat, unit) PluginsExtension"
  let ?E1 = "newExtension ''a'' 7 None (Some \<lparr>key = None, rest = ()\<rparr>) None :: unit Extension"
  let ?E3 = "newExtension ''c'' 8 None (Some \<lparr>key = None, rest = ()\<rparr>) None :: unit Extension"
  let ?st = "newStore \<lparr>settings_exclude = None\<rparr> 2
         (Some \<lparr>state = \<lparr>state_plugins = [],
                          plugin_fields = [PluginKey 0 ''a'' \<mapsto> 1, PluginKey 2 ''c'' \<mapsto> 2],
                          doc = ()\<rparr>\<rparr>) :: (unit, nat, unit) Store"
  have e1: "name ?E1 = ''a''" "constructor ?E1 = 7"
    by (simp_all add: newExtension_def)
  have h1: "?E1 \<in> set [?E1, ?E3]" by simp
  have h2: "createPlugin ?E1 \<noteq> None" by (simp add: newExtension_def)
  have h3: "\<not> excludesPlugins (settings_exclude (managerSettings (store ?t0)))"
    by (simp add: excludesPlugins_def new_PluginsExtension_def newStore_def)
  have h4: "\<not> excludesPlugins (options_exclude (options ?E1))"
    by (simp add: excludesPlugins_def newExtension_def)
  have h5: "\<forall>e \<in> set [?E1, ?E3].
           createPlugin e \<noteq> None \<longrightarrow> (name e = name ?E1) = (constructor e = constructor ?E1)"
    by (simp add: newExtension_def)
  from name_and_constructor_share_getter [OF h1 h2 h3 h4 h5, of ?st]
  show ?thesis unfolding e1 by auto
qed

section \<open>An extension with external plugins only\<close>

text \<open>
  C10, as stated: an extension that declares only \<^verbatim>\<open>createExternalPlugins\<close> has its
  external plugins appended to the extension-plugin list, and a later lookup by its
  name or constructor fails with the not-found error. Both fail on some inputs. When
  the extension's own option excludes plugins, nothing is appended: a fresh instance
  that processes this one extension ends with an empty extension-plugin list. And when
  an extension that declares \<^verbatim>\<open>createPlugin\<close> shares the constructor, the lookup by the
  constructor succeeds: with \<open>B\<close> (declaring \<^verbatim>\<open>createPlugin\<close>) and \<open>C\<close> (external plugins
  only), both of the class at address 12, and the plugin state 41 under \<open>B\<close>'s key, the
  lookup by \<open>C\<close>'s constructor returns 41.
\<close>

theorem external_only_extension_excluded_or_shadowed:
  "extensionPlugins
     (snd (onCreate
        (new_PluginsExtension (newStore \<lparr>settings_exclude = None\<rparr> 0 None) 0
          :: (unit, nat, unit) PluginsExtension)
        [newExtension ''C'' 12 (Some \<lparr>exclude_plugins = Some True\<rparr>) None
           (Some [Plugin 20 \<lparr>key = None, rest = ()\<rparr>])]))
   = []
   \<and> getStateByName
     ((snd (onCreate
         (new_PluginsExtension (newStore \<lparr>settings_exclude = None\<rparr> 0 None) 0
           :: (unit, nat, unit) PluginsExtension)
         [newExtension ''B'' 12 None (Some \<lparr>key = None, rest = ()\<rparr>) None,
          newExtension ''C'' 12 None None (Some [Plugin 20 \<lparr>key = None, rest = ()\<rparr>])]))
      \<lparr>store := newStore \<lparr>settings_exclude = None\<rparr> 2
         (Some \<lparr>state = \<lparr>state_plugins = [],
                          plugin_fields = [PluginKey 0 ''B'' \<mapsto> 41],
                          doc = ()\<rparr>\<rparr>)\<rparr>)
     (ByConstructor 12)
   = Inr (Some 41)"
proof -
  let ?t0 = "new_PluginsExtension (newStore \<lparr>settings_exclude = None\<rparr> 0 None) 0
           :: (unit, nat, unit) PluginsExtension"
  let ?X = "newExtension ''C'' 12 (Some \<lparr>exclude_plugins = Some True\<rparr>) None
           (Some [Plugin 20 \<lparr>key = None, rest = ()\<rparr>]) :: unit Extension"
  let ?B = "newExtension ''B'' 12 None (Some \<lparr>key = None, rest = ()\<rparr>) None :: unit Extension"
  let ?C = "newExtension ''C'' 12 None None (Some [Plugin 20 \<lparr>key = None, rest = ()\<rparr>])
              :: unit Extension"
  let ?u = "updateExtensionStore ?t0"
  let ?s1 = "snd (createEachExtensionPlugins ?u ?B)"
  let ?s2 = "snd (createEachExtensionPlugins ?s1 ?C)"
  have skipX: "skipsPlugins ?t0 ?X"
    by (simp add: skipsPlugins_def excludesPlugins_def newExtension_def)
  have t0: "extensionPlugins ?t0 = []"
    by (simp add: new_PluginsExtension_def)
  have excluded: "extensionPlugins (snd (onCreate ?t0 [?X])) = []"
    using skipX by (simp add: onCreate_extensionPlugins t0)
  have skipB: "\<not> skipsPlugins ?u ?B"
    by (simp add: skipsPlugins_update)
      (simp add: skipsPlugins_def excludesPlugins_def new_PluginsExtension_def
        newStore_def newExtension_def)
  have b: "name ?B = ''B''" "constructor ?B = 12"
      "createPlugin ?B = Some \<lparr>key = None, rest = ()\<rparr>"
    and c: "createPlugin ?C = None"
    by (simp_all add: newExtension_def)
  have f0: "fresh ?u = 0"
    by (simp add: updateExtensionStore_fields new_PluginsExtension_def)
  have g1: "stateGetters ?s1 (ByConstructor 12) = Some (Getter (PluginKey 0 ''B''))"
    by (subst step_stateGetters) (simp add: skipB b f0)
  have g2: "stateGetters ?s2 (ByConstructor 12) = Some (Getter (PluginKey 0 ''B''))"
    by (subst step_stateGetters) (simp add: c g1)
  have run: "stateGetters (snd (onCreate ?t0 [?B, ?C])) = stateGetters ?s2"
    by (simp only: onCreate_stateGetters all_Cons createAllExtensionPlugins.simps(1) snd_conv)
  let ?st = "newStore \<lparr>settings_exclude = None\<rparr> 2
         (Some \<lparr>state = \<lparr>state_plugins = [],
                          plugin_fields = [PluginKey 0 ''B'' \<mapsto> 41],
                          doc = ()\<rparr>\<rparr>) :: (unit, nat, unit) Store"
  let ?later = "(snd (onCreate ?t0 [?B, ?C]))\<lparr>store := ?st\<rparr>"
  have "getStateByName ?later (ByConstructor 12)
          = callGetter ?later (Getter (PluginKey 0 ''B''))"
    by (rule getStateByName_registered) (simp add: run g2)
  then have shadowed: "getStateByName ?later (ByConstructor 12) = Inr (Some 41)"
    by (simp add: callGetter_def utils_getPluginState_def newStore_def)
  show ?thesis using excluded shadowed by simp
qed

text \<open>
  C10, amended. Let the extension \<open>e\<close> declare \<^verbatim>\<open>createExternalPlugins\<close> and not
  \<^verbatim>\<open>createPlugin\<close>, and let neither the manager nor the extension exclude plugins.
  Processing \<open>e\<close> appends its external plugins to the extension-plugin list and advances
  the object heap by the key that is allocated and dropped; nothing else changes: the
  extension is returned as it was, with no \<open>pluginKey\<close> and no \<open>getPluginState\<close>
  attached, and the key map and the getter registry are untouched. So when \<open>e\<close> is among
  the extensions that \<^verbatim>\<open>onCreate\<close> processes, nothing was registered for its name or
  constructor before, and no extension that declares \<^verbatim>\<open>createPlugin\<close> shares its name or
  its constructor, then afterwards its external plugins are part of the
  extension-plugin list, the extension is unchanged, the key map has no entry for its
  name, and at any later point, whatever the store \<open>st\<close> has become, the lookup by its
  name and the lookup by its constructor fail with the not-found error.
\<close>

theorem external_only_extension_is_not_registered:
  assumes "createPlugin e = None"
    and "createExternalPlugins e = Some external"
    and "\<not> excludesPlugins (settings_exclude (managerSettings (store this)))"
    and "\<not> excludesPlugins (options_exclude (options e))"
  shows "createEachExtensionPlugins this e
           = (e, this\<lparr>extensionPlugins := extensionPlugins this @ external,
                      fresh := Suc (fresh this)\<rparr>)
   \<and> (e \<in> set extensions
        \<and> pluginKeys this (name e) = None
        \<and> stateGetters this (ByName (name e)) = None
        \<and> stateGetters this (ByConstructor (constructor e)) = None
        \<and> (\<forall>e' \<in> set extensions. createPlugin e' \<noteq> None
              \<longrightarrow> name e' \<noteq> name e \<and> constructor e' \<noteq> constructor e)
      \<longrightarrow> (\<exists>before after. extensionPlugins (snd (onCreate this extensions))
                               = before @ external @ after)
          \<and> e \<in> set (fst (onCreate this extensions))
          \<and> pluginKeys (snd (onCreate this extensions)) (name e) = None
          \<and> getStateByName ((snd (onCreate this extensions))\<lparr>store := st\<rparr>) (ByName (name e))
              = Inl (RemirrorError None ''No plugin exists for the requested extension name.'')
          \<and> getStateByName ((snd (onCreate this extensions))\<lparr>store := st\<rparr>)
                (ByConstructor (constructor e))
              = Inl (RemirrorError None ''No plugin exists for the requested extension name.''))"
proof (intro conjI impI)
  have noskip: "\<not> skipsPlugins this e"
    using assms by (simp add: skipsPlugins_def)
  then show "createEachExtensionPlugins this e
           = (e, this\<lparr>extensionPlugins := extensionPlugins this @ external,
                      fresh := Suc (fresh this)\<rparr>)"
    using assms(1,2) by (simp add: createEachExtensionPlugins_def new_PluginKey_def Let_def)
next
  assume h: "e \<in> set extensions
        \<and> pluginKeys this (name e) = None
        \<and> stateGetters this (ByName (name e)) = None
        \<and> stateGetters this (ByConstructor (constructor e)) = None
        \<and> (\<forall>e' \<in> set extensions. createPlugin e' \<noteq> None
              \<longrightarrow> name e' \<noteq> name e \<and> constructor e' \<noteq> constructor e)"
  let ?after = "snd (onCreate this extensions)"
  let ?u = "updateExtensionStore this"
  have noskip: "\<not> skipsPlugins this e"
    using assms by (simp add: skipsPlugins_def)
  from h obtain xs ys where split: "extensions = xs @ e # ys"
    by (auto simp add: in_set_conv_decomp)
  obtain a' where "collected this (fresh this) (xs @ e # ys)
                     = collected this (fresh this) xs @ collected this a' (e # ys)"
    using collected_append by blast
  then have "extensionPlugins ?after
               = (extensionPlugins this @ collected this (fresh this) xs)
                 @ external @ collected this (a' + allocations e) ys"
    using noskip assms(1,2)
    by (simp add: onCreate_extensionPlugins split ownPlugin_def externalPlugins_def)
  then show "\<exists>before after. extensionPlugins ?after = before @ external @ after"
    by blast
  show "e \<in> set (fst (onCreate this extensions))"
    unfolding onCreate_fst using h assms(1) by (intro extension_untouched_all) simp_all
  have "\<forall>e' \<in> set extensions. createPlugin e' \<noteq> None \<longrightarrow> name e' \<noteq> name e"
    using h by blast
  then show "pluginKeys ?after (name e) = None"
    unfolding onCreate_pluginKeys using h
    by (intro keys_absent_all) (simp_all add: updateExtensionStore_fields)
  have n: "stateGetters ?after (ByName (name e)) = None"
    unfolding onCreate_stateGetters using h
    by (intro getters_absent_all) (auto simp add: updateExtensionStore_fields)
  have c: "stateGetters ?after (ByConstructor (constructor e)) = None"
    unfolding onCreate_stateGetters using h
    by (intro getters_absent_all) (auto simp add: updateExtensionStore_fields)
  show "getStateByName (?after\<lparr>store := st\<rparr>) (ByName (name e))
          = Inl (RemirrorError None ''No plugin exists for the requested extension name.'')"
    using n by (rule getStateByName_store)
  show "getStateByName (?after\<lparr>store := st\<rparr>) (ByConstructor (constructor e))
          = Inl (RemirrorError None ''No plugin exists for the requested extension name.'')"
    using c by (rule getStateByName_store)
qed

theorem external_only_extension_is_not_registered_witness:
  "createEachExtensionPlugins
     (new_PluginsExtension (newStore \<lparr>settings_exclude = None\<rparr> 0 None) 0
       :: (unit, nat, unit) PluginsExtension)
     (newExtension ''C'' 12 None None (Some [Plugin 20 \<lparr>key = None, rest = ()\<rparr>]))
   = (newExtension ''C'' 12 None None (Some [Plugin 20 \<lparr>key = None, rest = ()\<rparr>]),
      (new_PluginsExtension (newStore \<lparr>settings_exclude = None\<rparr> 0 None) 0)
      \<lparr>extensionPlugins := [Plugin 20 \<lparr>key = None, rest = ()\<rparr>], fresh := Suc 0\<rparr>)
   \<and> pluginKeys
       (snd (onCreate
          (new_PluginsExtension (newStore \<lparr>settings_exclude = None\<rparr> 0 None) 0
            :: (unit, nat, unit) PluginsExtension)
          [newExtension ''B'' 11 None (Some \<lparr>key = None, rest = ()\<rparr>) None,
           newExtension ''C'' 12 None None (Some [Plugin 20 \<lparr>key = None, rest = ()\<rparr>])]))
       ''C''
     = None
   \<and> getStateByName
       ((snd (onCreate
          (new_PluginsExtension (newStore \<lparr>settings_exclude = None\<rparr> 0 None) 0
            :: (unit, nat, unit) PluginsExtension)
          [newExtension ''B'' 11 None (Some \<lparr>key = None, rest = ()\<rparr>) None,
           newExtension ''C'' 12 None None (Some [Plugin 20 \<lparr>key = None, rest = ()\<rparr>])]))
        \<lparr>store := newStore \<lparr>settings_exclude = None\<rparr> 2
           (Some \<lparr>state = \<lparr>state_plugins = [], plugin_fields = Map.empty, doc = ()\<rparr>\<rparr>)\<rparr>)
       (ByName ''C'')
     = Inl (RemirrorError None ''No plugin exists for the requested extension name.'')
   \<and> getStateByName
       ((snd (onCreate
          (new_PluginsExtension (newStore \<lparr>settings_exclude = None\<rparr> 0 None) 0
            :: (unit, nat, unit) PluginsExtension)
          [newExtension ''B'' 11 None (Some \<lparr>key = None, rest = ()\<rparr>) None,
           newExtension ''C'' 12 None None (Some [Plugin 20 \<lparr>key = None, rest = ()\<rparr>])]))
        \<lparr>store := newStore \<lparr>settings_exclude = None\<rparr> 2
           (Some \<lparr>state = \<lparr>state_plugins = [], plugin_fields = Map.empty, doc = ()\<rparr>\<rparr>)\<rparr>)
       (ByConstructor 12)
     = Inl (RemirrorError None ''No plugin exists for the requested extension name.'')"
proof -
  let ?t0 = "new_PluginsExtension (newStore \<lparr>settings_exclude = None\<rparr> 0 None) 0
       :: (unit, nat, unit) PluginsExtension"
  let ?B = "newExtension ''B'' 11 None (Some \<lparr>key = None, rest = ()\<rparr>) None :: unit Extension"
  let ?C = "newExtension ''C'' 12 None None (Some [Plugin 20 \<lparr>key = None, rest = ()\<rparr>])
              :: unit Extension"
  let ?st = "newStore \<lparr>settings_exclude = None\<rparr> 2
           (Some \<lparr>state = \<lparr>state_plugins = [], plugin_fields = Map.empty, doc = ()\<rparr>\<rparr>)
              :: (unit, nat, unit) Store"
  have c: "name ?C = ''C''" "constructor ?C = 12"
    by (simp_all add: newExtension_def)
  have t: "extensionPlugins ?t0 = []" "fresh ?t0 = 0"
    by (simp_all add: new_PluginsExtension_def)
  have h1: "createPlugin ?C = None"
    and h2: "createExternalPlugins ?C = Some [Plugin 20 \<lparr>key = None, rest = ()\<rparr>]"
    and h4: "\<not> excludesPlugins (options_exclude (options ?C))"
    by (simp_all add: newExtension_def excludesPlugins_def)
  have h3: "\<not> excludesPlugins (settings_exclude (managerSettings (store ?t0)))"
    by (simp add: excludesPlugins_def new_PluginsExtension_def newStore_def)
  have h5: "?C \<in> set [?B, ?C]
        \<and> pluginKeys ?t0 (name ?C) = None
        \<and> stateGetters ?t0 (ByName (name ?C)) = None
        \<and> stateGetters ?t0 (ByConstructor (constructor ?C)) = None
        \<and> (\<forall>e' \<in> set [?B, ?C]. createPlugin e' \<noteq> None
              \<longrightarrow> name e' \<noteq> name ?C \<and> constructor e' \<noteq> constructor ?C)"
    by (simp add: new_PluginsExtension_def) (simp add: newExtension_def)
  note w = external_only_extension_is_not_registered [OF h1 h2 h3 h4, of "[?B, ?C]" ?st]
  from w have 1: "createEachExtensionPlugins ?t0 ?C
           = (?C, ?t0\<lparr>extensionPlugins := extensionPlugins ?t0 @ [Plugin 20 \<lparr>key = None, rest = ()\<rparr>],
                      fresh := Suc (fresh ?t0)\<rparr>)"
    by blast
  from w h5 have 2: "pluginKeys (snd (onCreate ?t0 [?B, ?C])) (name ?C) = None"
    by blast
  from w h5 have 3: "getStateByName ((snd (onCreate ?t0 [?B, ?C]))\<lparr>store := ?st\<rparr>) (ByName (name ?C))
              = Inl (RemirrorError None ''No plugin exists for the requested extension name.'')"
    by blast
  from w h5 have 4: "getStateByName ((snd (onCreate ?t0 [?B, ?C]))\<lparr>store := ?st\<rparr>)
                (ByConstructor (constructor ?C))
              = Inl (RemirrorError None ''No plugin exists for the requested extension name.'')"
    by blast
  show ?thesis
    using 1 2 3 4 unfolding c t by simp
qed

end
